theory Spec2Isabelle
  imports Main "HOL-Library.AList" "HOL-Library.Sublist"
begin

section \<open>Receiver configurations of config/notifies.go\<close>

text \<open>
  The file embeds the eight \<^verbatim>\<open>UnmarshalYAML\<close> methods of \<^verbatim>\<open>config/notifies.go\<close>.
  Go strings are byte strings and become \<^typ>\<open>string\<close>. A Go map is an association list
  with distinct keys; the order of the list is the order in which \<^verbatim>\<open>range\<close> happens to
  visit the map, which Go leaves open, so a theorem about every list is a theorem about
  every iteration order. A lookup is \<^const>\<open>map_of\<close>, an assignment \<^verbatim>\<open>m[k] = v\<close> is
  \<^const>\<open>AList.update\<close>. A returned \<^verbatim>\<open>error\<close> is the left summand of the result, and
  the receiver \<^verbatim>\<open>*c\<close> as the method leaves it on success is the right one.
\<close>

subsection \<open>Values of the parsed document\<close>

datatype yaml =
    YString string
  | YInt int
  | YBool bool
  | YSeq "yaml list"
  | YMap "(string \<times> yaml) list"

subsection \<open>Errors\<close>

text \<open>
  \<^verbatim>\<open>fmt.Errorf(format, args...)\<close> is kept as its format string and its arguments, not
  rendered. \<open>UnrecognizedFields\<close> is what \<^verbatim>\<open>checkOverflow\<close> returns; it carries the
  context string it was called with and the residual keys. \<open>TypeCoercionError\<close> is the
  decoder's error (variant and field).
\<close>

datatype error =
    Errorf string "string list"
  | UnrecognizedFields string "string list"
  | TypeCoercionError string string

fun error_names :: "error \<Rightarrow> string \<Rightarrow> bool" where
  "error_names (Errorf format args) s = (sublist s format \<or> list_ex (sublist s) args)"
| "error_names (UnrecognizedFields ctx keys) s = (sublist s ctx \<or> list_ex (sublist s) keys)"
| "error_names (TypeCoercionError variant field) s = (sublist s variant \<or> sublist s field)"

text \<open>
  A result that is the unrecognized-fields error for exactly the given keys, whatever the
  context string says.
\<close>

fun fails_unrecognized :: "error + 'c \<Rightarrow> string list \<Rightarrow> bool" where
  "fails_unrecognized (Inl (UnrecognizedFields ctx ks)) keys = (ks = keys)"
| "fails_unrecognized (Inl (Errorf format args)) keys = False"
| "fails_unrecognized (Inl (TypeCoercionError variant field)) keys = False"
| "fails_unrecognized (Inr c) keys = False"

text \<open>
  Modelled from the spec: \<^verbatim>\<open>checkOverflow\<close> is called at the end of every
  \<^verbatim>\<open>UnmarshalYAML\<close> but is defined in another file of the package, which is not among
  the sources. Section 4.3 of the specification: a non-empty residual-keys set fails with
  an "unrecognized field(s) in <variant> config" error naming every residual key; an
  empty one passes.
\<close>

definition checkOverflow :: "(string \<times> yaml) list \<Rightarrow> string \<Rightarrow> error option" where
  "checkOverflow m ctx = (if m = [] then None else Some (UnrecognizedFields ctx (map fst m)))"

text \<open>\<^verbatim>\<open>return checkOverflow(...)\<close>: the method's result once every other check passed.\<close>

fun returning :: "error option \<Rightarrow> 'c \<Rightarrow> error + 'c" where
  "returning None c = Inr c"
| "returning (Some err) c = Inl err"

subsection \<open>strings.ToTitle\<close>

text \<open>
  \<^verbatim>\<open>strings.ToTitle\<close> maps every rune to its Unicode title case. On ASCII that is the
  upper-case letter for \<open>a\<close> to \<open>z\<close> and the byte itself otherwise, which is what the model
  computes; bytes from 128 on are kept, so the model is that of Go on ASCII header names.
\<close>

definition ToTitle_rune :: "char \<Rightarrow> char" where
  "ToTitle_rune r =
     (case map_of (zip ''abcdefghijklmnopqrstuvwxyz'' ''ABCDEFGHIJKLMNOPQRSTUVWXYZ'') r of
        Some R \<Rightarrow> R
      | None \<Rightarrow> r)"

definition ToTitle :: "string \<Rightarrow> string" where
  "ToTitle s = map ToTitle_rune s"

subsection \<open>Flowdock\<close>

record FlowdockConfig =
  APIToken :: string
  FromAddress :: string
  Tags :: "string list"
  XXX :: "(string \<times> yaml) list"

text \<open>
  The \<open>unmarshal\<close> argument is the callback the YAML library passes in: it fills the
  value it is given and returns it, or fails. Flowdock, Pushover and Webhook assign no
  default, so the callback works on the receiver as the caller left it (\<open>c0\<close>).
\<close>

definition FlowdockConfig_UnmarshalYAML ::
  "(FlowdockConfig \<Rightarrow> error + FlowdockConfig) \<Rightarrow> FlowdockConfig \<Rightarrow> error + FlowdockConfig" where
  "FlowdockConfig_UnmarshalYAML unmarshal c0 =
     (case unmarshal c0 of
        Inl err \<Rightarrow> Inl err
      | Inr c \<Rightarrow>
          if FlowdockConfig.APIToken c = '''' then
            Inl (Errorf ''missing API token in Flowdock config'' [])
          else if FlowdockConfig.FromAddress c = '''' then
            Inl (Errorf ''missing from address in Flowdock config'' [])
          else returning (checkOverflow (FlowdockConfig.XXX c) ''flowdock config'') c)"

subsection \<open>Email\<close>

record EmailConfig =
  To :: string
  From :: string
  Smarthost :: string
  Headers :: "(string \<times> string) list"
  HTML :: string
  XXX :: "(string \<times> yaml) list"

definition DefaultEmailConfig :: EmailConfig where
  "DefaultEmailConfig =
     \<lparr>EmailConfig.To = '''', EmailConfig.From = '''', EmailConfig.Smarthost = '''',
      EmailConfig.Headers = [],
      EmailConfig.HTML = ''{{ template \"email.default.html\" . }}'',
      EmailConfig.XXX = []\<rparr>"

definition DefaultEmailSubject :: string where
  "DefaultEmailSubject = ''{{ template \"email.default.subject\" . }}''"

text \<open>
  The loop \<^verbatim>\<open>for h, v := range c.Headers\<close> of \<^verbatim>\<open>EmailConfig.UnmarshalYAML\<close>: the first
  argument is what is left of the map in iteration order, the second is
  \<^verbatim>\<open>normalizedHeaders\<close> so far.
\<close>

fun normalizeHeaders ::
  "(string \<times> string) list \<Rightarrow> (string \<times> string) list \<Rightarrow> error + (string \<times> string) list" where
  "normalizeHeaders [] normalizedHeaders = Inr normalizedHeaders"
| "normalizeHeaders ((h, v) # rest) normalizedHeaders =
     (if map_of normalizedHeaders (ToTitle h) \<noteq> None then
        Inl (Errorf ''duplicate header %q in email config'' [ToTitle h])
      else normalizeHeaders rest (AList.update (ToTitle h) v normalizedHeaders))"

text \<open>The three assignments guarded by \<^verbatim>\<open>if _, ok := c.Headers[k]; !ok\<close>.\<close>

definition setDefaultHeader ::
  "string \<Rightarrow> string \<Rightarrow> (string \<times> string) list \<Rightarrow> (string \<times> string) list" where
  "setDefaultHeader k v headers =
     (if map_of headers k = None then AList.update k v headers else headers)"

definition EmailConfig_UnmarshalYAML ::
  "(EmailConfig \<Rightarrow> error + EmailConfig) \<Rightarrow> error + EmailConfig" where
  "EmailConfig_UnmarshalYAML unmarshal =
     (case unmarshal DefaultEmailConfig of
        Inl err \<Rightarrow> Inl err
      | Inr c \<Rightarrow>
          if EmailConfig.To c = '''' then
            Inl (Errorf ''missing to address in email config'' [])
          else
            (case normalizeHeaders (EmailConfig.Headers c) [] of
               Inl err \<Rightarrow> Inl err
             | Inr normalizedHeaders \<Rightarrow>
                 (let c1 = c\<lparr>EmailConfig.Headers :=
                        setDefaultHeader ''From'' (EmailConfig.From c)
                          (setDefaultHeader ''To'' (EmailConfig.To c)
                            (setDefaultHeader ''Subject'' DefaultEmailSubject
                              normalizedHeaders))\<rparr>
                  in returning (checkOverflow (EmailConfig.XXX c1) ''email config'') c1)))"

subsection \<open>Hipchat\<close>

type_synonym HipchatFormat = string

definition HipchatFormatHTML :: HipchatFormat where
  "HipchatFormatHTML = ''html''"

definition HipchatFormatText :: HipchatFormat where
  "HipchatFormatText = ''text''"

record HipchatConfig =
  AuthToken :: string
  RoomID :: int
  Color :: string
  Notify :: bool
  Prefix :: string
  MessageFormat :: HipchatFormat
  XXX :: "(string \<times> yaml) list"

definition DefaultHipchatConfig :: HipchatConfig where
  "DefaultHipchatConfig =
     \<lparr>HipchatConfig.AuthToken = '''', HipchatConfig.RoomID = 0,
      HipchatConfig.Color = ''{{ if eq .Status \"firing\" }}purple{{ else }}green{{ end }}'',
      HipchatConfig.Notify = False, HipchatConfig.Prefix = '''',
      HipchatConfig.MessageFormat = HipchatFormatHTML,
      HipchatConfig.XXX = []\<rparr>"

definition HipchatConfig_UnmarshalYAML ::
  "(HipchatConfig \<Rightarrow> error + HipchatConfig) \<Rightarrow> error + HipchatConfig" where
  "HipchatConfig_UnmarshalYAML unmarshal =
     (case unmarshal DefaultHipchatConfig of
        Inl err \<Rightarrow> Inl err
      | Inr c \<Rightarrow>
          if HipchatConfig.AuthToken c = '''' then
            Inl (Errorf ''missing auth token in HipChat config'' [])
          else if HipchatConfig.MessageFormat c \<noteq> HipchatFormatHTML
                  \<and> HipchatConfig.MessageFormat c \<noteq> HipchatFormatText then
            Inl (Errorf ''invalid message format %q'' [HipchatConfig.MessageFormat c])
          else returning (checkOverflow (HipchatConfig.XXX c) ''hipchat config'') c)"

subsection \<open>PagerDuty\<close>

text \<open>
  \<^verbatim>\<open>DefaultPagerdutyConfig\<close> is the only default that holds a map. A Go map value is a
  reference, and \<^verbatim>\<open>*c = DefaultPagerdutyConfig\<close> copies the struct, that is the reference,
  not the map. The map objects therefore live in a store: an address is an index into
  the list of map objects, and the \<open>Details\<close> field holds an address (\<open>None\<close> for a nil
  map). The package's initial store holds the default's \<open>Details\<close> map at address 0.
\<close>

type_synonym addr = nat

type_synonym store = "(string \<times> string) list list"

definition store_get :: "store \<Rightarrow> addr \<Rightarrow> (string \<times> string) list option" where
  "store_get s a = (if a < length s then Some (s ! a) else None)"

definition store_set :: "store \<Rightarrow> addr \<Rightarrow> (string \<times> string) list \<Rightarrow> store" where
  "store_set s a m = (if a < length s then s[a := m] else s)"

definition store_new :: "store \<Rightarrow> (string \<times> string) list \<Rightarrow> addr \<times> store" where
  "store_new s m = (length s, s @ [m])"

record PagerdutyConfig =
  ServiceKey :: string
  URL :: string
  Client :: string
  ClientURL :: string
  Description :: string
  Details :: "addr option"
  XXX :: "(string \<times> yaml) list"

definition DefaultPagerdutyDetails :: "(string \<times> string) list" where
  "DefaultPagerdutyDetails =
     [(''firing'', ''{{ template \"pagerduty.default.instances\" (.Alerts | firing) }}''),
      (''resolved'', ''{{ template \"pagerduty.default.instances\" (.Alerts | resolved) }}''),
      (''num_firing'', ''{{ .Alerts | firing | len }}''),
      (''num_resolved'', ''{{ .Alerts | resolved | len }}'')]"

definition init_store :: store where
  "init_store = [DefaultPagerdutyDetails]"

definition DefaultPagerdutyConfig :: PagerdutyConfig where
  "DefaultPagerdutyConfig =
     \<lparr>PagerdutyConfig.ServiceKey = '''', PagerdutyConfig.URL = '''',
      PagerdutyConfig.Client = ''{{ template \"pagerduty.default.client\" . }}'',
      PagerdutyConfig.ClientURL = ''{{ template \"pagerduty.default.clientURL\" . }}'',
      PagerdutyConfig.Description = ''{{ template \"pagerduty.default.description\" .}}'',
      PagerdutyConfig.Details = Some 0,
      PagerdutyConfig.XXX = []\<rparr>"

text \<open>
  The callback receives the copy of the default and the store, and returns the store as
  it left it. The method itself writes to no map object.
\<close>

definition PagerdutyConfig_UnmarshalYAML ::
  "(PagerdutyConfig \<Rightarrow> store \<Rightarrow> (error + PagerdutyConfig) \<times> store) \<Rightarrow> store
     \<Rightarrow> (error + PagerdutyConfig) \<times> store" where
  "PagerdutyConfig_UnmarshalYAML unmarshal s =
     (case unmarshal DefaultPagerdutyConfig s of
        (Inl err, s') \<Rightarrow> (Inl err, s')
      | (Inr c, s') \<Rightarrow>
          if PagerdutyConfig.ServiceKey c = '''' then
            (Inl (Errorf ''missing service key in PagerDuty config'' []), s')
          else (returning (checkOverflow (PagerdutyConfig.XXX c) ''pagerduty config'') c, s'))"

subsection \<open>Pushover\<close>

record PushoverConfig =
  Token :: string
  UserKey :: string
  XXX :: "(string \<times> yaml) list"

definition PushoverConfig_UnmarshalYAML ::
  "(PushoverConfig \<Rightarrow> error + PushoverConfig) \<Rightarrow> PushoverConfig \<Rightarrow> error + PushoverConfig" where
  "PushoverConfig_UnmarshalYAML unmarshal c0 =
     (case unmarshal c0 of
        Inl err \<Rightarrow> Inl err
      | Inr c \<Rightarrow>
          if PushoverConfig.Token c = '''' then
            Inl (Errorf ''missing token in Pushover config'' [])
          else if PushoverConfig.UserKey c = '''' then
            Inl (Errorf ''missing user key in Pushover config'' [])
          else returning (checkOverflow (PushoverConfig.XXX c) ''pushover config'') c)"

subsection \<open>Slack\<close>

record SlackConfig =
  URL :: string
  Channel :: string
  Username :: string
  Color :: string
  Title :: string
  TitleLink :: string
  Pretext :: string
  Text :: string
  Fallback :: string
  XXX :: "(string \<times> yaml) list"

definition DefaultSlackConfig :: SlackConfig where
  "DefaultSlackConfig =
     \<lparr>SlackConfig.URL = '''', SlackConfig.Channel = '''',
      SlackConfig.Username = ''{{ template \"slack.default.username\" . }}'',
      SlackConfig.Color = ''{{ if eq .Status \"firing\" }}danger{{ else }}good{{ end }}'',
      SlackConfig.Title = ''{{ template \"slack.default.title\" . }}'',
      SlackConfig.TitleLink = ''{{ template \"slack.default.titlelink\" . }}'',
      SlackConfig.Pretext = ''{{ template \"slack.default.pretext\" . }}'',
      SlackConfig.Text = ''{{ template \"slack.default.text\" . }}'',
      SlackConfig.Fallback = ''{{ template \"slack.default.fallback\" . }}'',
      SlackConfig.XXX = []\<rparr>"

definition SlackConfig_UnmarshalYAML ::
  "(SlackConfig \<Rightarrow> error + SlackConfig) \<Rightarrow> error + SlackConfig" where
  "SlackConfig_UnmarshalYAML unmarshal =
     (case unmarshal DefaultSlackConfig of
        Inl err \<Rightarrow> Inl err
      | Inr c \<Rightarrow>
          if SlackConfig.Channel c = '''' then
            Inl (Errorf ''missing channel in Slack config'' [])
          else returning (checkOverflow (SlackConfig.XXX c) ''slack config'') c)"

subsection \<open>Webhook\<close>

record WebhookConfig =
  URL :: string
  XXX :: "(string \<times> yaml) list"

definition WebhookConfig_UnmarshalYAML ::
  "(WebhookConfig \<Rightarrow> error + WebhookConfig) \<Rightarrow> WebhookConfig \<Rightarrow> error + WebhookConfig" where
  "WebhookConfig_UnmarshalYAML unmarshal c0 =
     (case unmarshal c0 of
        Inl err \<Rightarrow> Inl err
      | Inr c \<Rightarrow>
          if WebhookConfig.URL c = '''' then
            Inl (Errorf ''missing URL in webhook config'' [])
          else returning (checkOverflow (WebhookConfig.XXX c) ''slack config'') c)"

subsection \<open>OpsGenie\<close>

record OpsGenieConfig =
  APIKey :: string
  APIHost :: string
  Description :: string
  Source :: string
  Details :: "(string \<times> string) list"
  XXX :: "(string \<times> yaml) list"

definition DefaultOpsGenieConfig :: OpsGenieConfig where
  "DefaultOpsGenieConfig =
     \<lparr>OpsGenieConfig.APIKey = '''', OpsGenieConfig.APIHost = '''',
      OpsGenieConfig.Description = ''{{ template \"opsgenie.default.description\" . }}'',
      OpsGenieConfig.Source = ''{{ template \"opsgenie.default.source\" . }}'',
      OpsGenieConfig.Details = [],
      OpsGenieConfig.XXX = []\<rparr>"

definition OpsGenieConfig_UnmarshalYAML ::
  "(OpsGenieConfig \<Rightarrow> error + OpsGenieConfig) \<Rightarrow> error + OpsGenieConfig" where
  "OpsGenieConfig_UnmarshalYAML unmarshal =
     (case unmarshal DefaultOpsGenieConfig of
        Inl err \<Rightarrow> Inl err
      | Inr c \<Rightarrow>
          if OpsGenieConfig.APIKey c = '''' then
            Inl (Errorf ''missing API key in OpsGenie config'' [])
          else returning (checkOverflow (OpsGenieConfig.XXX c) ''opsgenie config'') c)"

section \<open>The decoder behind the \<open>unmarshal\<close> callback\<close>

text \<open>
  Modelled from the spec: the \<open>unmarshal\<close> callback is the YAML library's decoder, which
  is not part of the sources. Section 4.2 of the specification (Strict-Schema Decoder):
  every key of the node that matches a known field of the variant is coerced to the
  field's type and assigned or overlaid onto the seed; every other key is added verbatim
  to the residual keys; a type mismatch fails at once with a coercion error naming the
  variant and the field. A node is the list of its key-value pairs in document order.
\<close>

fun decode ::
  "(string \<Rightarrow> yaml \<Rightarrow> 'c \<Rightarrow> error + 'c) \<Rightarrow> (string \<times> yaml) list \<Rightarrow> 'c \<Rightarrow> error + 'c" where
  "decode assign [] c = Inr c"
| "decode assign ((k, v) # node) c =
     (case assign k v c of
        Inl err \<Rightarrow> Inl err
      | Inr c' \<Rightarrow> decode assign node c')"

fun coerce_string :: "string \<Rightarrow> string \<Rightarrow> yaml \<Rightarrow> error + string" where
  "coerce_string variant field (YString s) = Inr s"
| "coerce_string variant field (YInt i) = Inl (TypeCoercionError variant field)"
| "coerce_string variant field (YBool b) = Inl (TypeCoercionError variant field)"
| "coerce_string variant field (YSeq vs) = Inl (TypeCoercionError variant field)"
| "coerce_string variant field (YMap kvs) = Inl (TypeCoercionError variant field)"

fun coerce_int :: "string \<Rightarrow> string \<Rightarrow> yaml \<Rightarrow> error + int" where
  "coerce_int variant field (YInt i) = Inr i"
| "coerce_int variant field (YString s) = Inl (TypeCoercionError variant field)"
| "coerce_int variant field (YBool b) = Inl (TypeCoercionError variant field)"
| "coerce_int variant field (YSeq vs) = Inl (TypeCoercionError variant field)"
| "coerce_int variant field (YMap kvs) = Inl (TypeCoercionError variant field)"

fun coerce_bool :: "string \<Rightarrow> string \<Rightarrow> yaml \<Rightarrow> error + bool" where
  "coerce_bool variant field (YBool b) = Inr b"
| "coerce_bool variant field (YString s) = Inl (TypeCoercionError variant field)"
| "coerce_bool variant field (YInt i) = Inl (TypeCoercionError variant field)"
| "coerce_bool variant field (YSeq vs) = Inl (TypeCoercionError variant field)"
| "coerce_bool variant field (YMap kvs) = Inl (TypeCoercionError variant field)"

fun coerce_strings :: "string \<Rightarrow> string \<Rightarrow> yaml list \<Rightarrow> error + string list" where
  "coerce_strings variant field [] = Inr []"
| "coerce_strings variant field (v # vs) =
     (case coerce_string variant field v of
        Inl err \<Rightarrow> Inl err
      | Inr s \<Rightarrow> map_sum id (Cons s) (coerce_strings variant field vs))"

fun coerce_string_seq :: "string \<Rightarrow> string \<Rightarrow> yaml \<Rightarrow> error + string list" where
  "coerce_string_seq variant field (YSeq vs) = coerce_strings variant field vs"
| "coerce_string_seq variant field (YString s) = Inl (TypeCoercionError variant field)"
| "coerce_string_seq variant field (YInt i) = Inl (TypeCoercionError variant field)"
| "coerce_string_seq variant field (YBool b) = Inl (TypeCoercionError variant field)"
| "coerce_string_seq variant field (YMap kvs) = Inl (TypeCoercionError variant field)"

text \<open>
  A mapping decoded into a map field is overlaid onto the map the field holds, key by
  key; a nil map is the empty list.
\<close>

fun overlay ::
  "string \<Rightarrow> string \<Rightarrow> (string \<times> yaml) list \<Rightarrow> (string \<times> string) list
     \<Rightarrow> error + (string \<times> string) list" where
  "overlay variant field [] m = Inr m"
| "overlay variant field ((k, v) # kvs) m =
     (case coerce_string variant field v of
        Inl err \<Rightarrow> Inl err
      | Inr s \<Rightarrow> overlay variant field kvs (AList.update k s m))"

fun coerce_string_map ::
  "string \<Rightarrow> string \<Rightarrow> yaml \<Rightarrow> (string \<times> string) list \<Rightarrow> error + (string \<times> string) list" where
  "coerce_string_map variant field (YMap kvs) m = overlay variant field kvs m"
| "coerce_string_map variant field (YString s) m = Inl (TypeCoercionError variant field)"
| "coerce_string_map variant field (YInt i) m = Inl (TypeCoercionError variant field)"
| "coerce_string_map variant field (YBool b) m = Inl (TypeCoercionError variant field)"
| "coerce_string_map variant field (YSeq vs) m = Inl (TypeCoercionError variant field)"

definition Flowdock_assign :: "string \<Rightarrow> yaml \<Rightarrow> FlowdockConfig \<Rightarrow> error + FlowdockConfig" where
  "Flowdock_assign k v c =
     (if k = ''api_token'' then
        map_sum id (\<lambda>s. c\<lparr>FlowdockConfig.APIToken := s\<rparr>) (coerce_string ''flowdock'' k v)
      else if k = ''from_address'' then
        map_sum id (\<lambda>s. c\<lparr>FlowdockConfig.FromAddress := s\<rparr>) (coerce_string ''flowdock'' k v)
      else if k = ''tags'' then
        map_sum id (\<lambda>ts. c\<lparr>FlowdockConfig.Tags := ts\<rparr>) (coerce_string_seq ''flowdock'' k v)
      else Inr (c\<lparr>FlowdockConfig.XXX := AList.update k v (FlowdockConfig.XXX c)\<rparr>))"

definition unmarshal_Flowdock ::
  "(string \<times> yaml) list \<Rightarrow> FlowdockConfig \<Rightarrow> error + FlowdockConfig" where
  "unmarshal_Flowdock node c = decode Flowdock_assign node (c\<lparr>FlowdockConfig.XXX := []\<rparr>)"

definition Email_assign :: "string \<Rightarrow> yaml \<Rightarrow> EmailConfig \<Rightarrow> error + EmailConfig" where
  "Email_assign k v c =
     (if k = ''to'' then
        map_sum id (\<lambda>s. c\<lparr>EmailConfig.To := s\<rparr>) (coerce_string ''email'' k v)
      else if k = ''from'' then
        map_sum id (\<lambda>s. c\<lparr>EmailConfig.From := s\<rparr>) (coerce_string ''email'' k v)
      else if k = ''smarthost'' then
        map_sum id (\<lambda>s. c\<lparr>EmailConfig.Smarthost := s\<rparr>) (coerce_string ''email'' k v)
      else if k = ''headers'' then
        map_sum id (\<lambda>m. c\<lparr>EmailConfig.Headers := m\<rparr>)
          (coerce_string_map ''email'' k v (EmailConfig.Headers c))
      else if k = ''html'' then
        map_sum id (\<lambda>s. c\<lparr>EmailConfig.HTML := s\<rparr>) (coerce_string ''email'' k v)
      else Inr (c\<lparr>EmailConfig.XXX := AList.update k v (EmailConfig.XXX c)\<rparr>))"

definition unmarshal_Email :: "(string \<times> yaml) list \<Rightarrow> EmailConfig \<Rightarrow> error + EmailConfig" where
  "unmarshal_Email node c = decode Email_assign node (c\<lparr>EmailConfig.XXX := []\<rparr>)"

definition Hipchat_assign :: "string \<Rightarrow> yaml \<Rightarrow> HipchatConfig \<Rightarrow> error + HipchatConfig" where
  "Hipchat_assign k v c =
     (if k = ''auth_token'' then
        map_sum id (\<lambda>s. c\<lparr>HipchatConfig.AuthToken := s\<rparr>) (coerce_string ''hipchat'' k v)
      else if k = ''room_id'' then
        map_sum id (\<lambda>i. c\<lparr>HipchatConfig.RoomID := i\<rparr>) (coerce_int ''hipchat'' k v)
      else if k = ''color'' then
        map_sum id (\<lambda>s. c\<lparr>HipchatConfig.Color := s\<rparr>) (coerce_string ''hipchat'' k v)
      else if k = ''notify'' then
        map_sum id (\<lambda>b. c\<lparr>HipchatConfig.Notify := b\<rparr>) (coerce_bool ''hipchat'' k v)
      else if k = ''prefix'' then
        map_sum id (\<lambda>s. c\<lparr>HipchatConfig.Prefix := s\<rparr>) (coerce_string ''hipchat'' k v)
      else if k = ''message_format'' then
        map_sum id (\<lambda>s. c\<lparr>HipchatConfig.MessageFormat := s\<rparr>) (coerce_string ''hipchat'' k v)
      else Inr (c\<lparr>HipchatConfig.XXX := AList.update k v (HipchatConfig.XXX c)\<rparr>))"

definition unmarshal_Hipchat ::
  "(string \<times> yaml) list \<Rightarrow> HipchatConfig \<Rightarrow> error + HipchatConfig" where
  "unmarshal_Hipchat node c = decode Hipchat_assign node (c\<lparr>HipchatConfig.XXX := []\<rparr>)"

text \<open>
  For PagerDuty the decoder works on the value and the store. A \<open>details\<close> mapping is
  overlaid onto the map object the \<open>Details\<close> field refers to; only a nil field gets a
  new map object.
\<close>

definition Pagerduty_details ::
  "string \<Rightarrow> yaml \<Rightarrow> PagerdutyConfig \<times> store \<Rightarrow> error + PagerdutyConfig \<times> store" where
  "Pagerduty_details k v cs =
     (case PagerdutyConfig.Details (fst cs) of
        None \<Rightarrow>
          map_sum id
            (\<lambda>m. (fst cs\<lparr>PagerdutyConfig.Details := Some (fst (store_new (snd cs) m))\<rparr>,
                  snd (store_new (snd cs) m)))
            (coerce_string_map ''pagerduty'' k v [])
      | Some a \<Rightarrow>
          (case store_get (snd cs) a of
             None \<Rightarrow> Inl (TypeCoercionError ''pagerduty'' k)
           | Some m0 \<Rightarrow>
               map_sum id (\<lambda>m. (fst cs, store_set (snd cs) a m))
                 (coerce_string_map ''pagerduty'' k v m0)))"

definition Pagerduty_assign ::
  "string \<Rightarrow> yaml \<Rightarrow> PagerdutyConfig \<times> store \<Rightarrow> error + PagerdutyConfig \<times> store" where
  "Pagerduty_assign k v cs =
     (if k = ''service_key'' then
        map_sum id (\<lambda>s. (fst cs\<lparr>PagerdutyConfig.ServiceKey := s\<rparr>, snd cs))
          (coerce_string ''pagerduty'' k v)
      else if k = ''url'' then
        map_sum id (\<lambda>s. (fst cs\<lparr>PagerdutyConfig.URL := s\<rparr>, snd cs))
          (coerce_string ''pagerduty'' k v)
      else if k = ''client'' then
        map_sum id (\<lambda>s. (fst cs\<lparr>PagerdutyConfig.Client := s\<rparr>, snd cs))
          (coerce_string ''pagerduty'' k v)
      else if k = ''client_url'' then
        map_sum id (\<lambda>s. (fst cs\<lparr>PagerdutyConfig.ClientURL := s\<rparr>, snd cs))
          (coerce_string ''pagerduty'' k v)
      else if k = ''description'' then
        map_sum id (\<lambda>s. (fst cs\<lparr>PagerdutyConfig.Description := s\<rparr>, snd cs))
          (coerce_string ''pagerduty'' k v)
      else if k = ''details'' then Pagerduty_details k v cs
      else Inr (fst cs\<lparr>PagerdutyConfig.XXX := AList.update k v (PagerdutyConfig.XXX (fst cs))\<rparr>,
                snd cs))"

definition unmarshal_Pagerduty ::
  "(string \<times> yaml) list \<Rightarrow> PagerdutyConfig \<Rightarrow> store \<Rightarrow> (error + PagerdutyConfig) \<times> store" where
  "unmarshal_Pagerduty node c s =
     (case decode Pagerduty_assign node (c\<lparr>PagerdutyConfig.XXX := []\<rparr>, s) of
        Inl err \<Rightarrow> (Inl err, s)
      | Inr cs \<Rightarrow> (Inr (fst cs), snd cs))"

definition Pushover_assign :: "string \<Rightarrow> yaml \<Rightarrow> PushoverConfig \<Rightarrow> error + PushoverConfig" where
  "Pushover_assign k v c =
     (if k = ''token'' then
        map_sum id (\<lambda>s. c\<lparr>PushoverConfig.Token := s\<rparr>) (coerce_string ''pushover'' k v)
      else if k = ''user_key'' then
        map_sum id (\<lambda>s. c\<lparr>PushoverConfig.UserKey := s\<rparr>) (coerce_string ''pushover'' k v)
      else Inr (c\<lparr>PushoverConfig.XXX := AList.update k v (PushoverConfig.XXX c)\<rparr>))"

definition unmarshal_Pushover ::
  "(string \<times> yaml) list \<Rightarrow> PushoverConfig \<Rightarrow> error + PushoverConfig" where
  "unmarshal_Pushover node c = decode Pushover_assign node (c\<lparr>PushoverConfig.XXX := []\<rparr>)"

definition Slack_assign :: "string \<Rightarrow> yaml \<Rightarrow> SlackConfig \<Rightarrow> error + SlackConfig" where
  "Slack_assign k v c =
     (if k = ''url'' then
        map_sum id (\<lambda>s. c\<lparr>SlackConfig.URL := s\<rparr>) (coerce_string ''slack'' k v)
      else if k = ''channel'' then
        map_sum id (\<lambda>s. c\<lparr>SlackConfig.Channel := s\<rparr>) (coerce_string ''slack'' k v)
      else if k = ''username'' then
        map_sum id (\<lambda>s. c\<lparr>SlackConfig.Username := s\<rparr>) (coerce_string ''slack'' k v)
      else if k = ''color'' then
        map_sum id (\<lambda>s. c\<lparr>SlackConfig.Color := s\<rparr>) (coerce_string ''slack'' k v)
      else if k = ''title'' then
        map_sum id (\<lambda>s. c\<lparr>SlackConfig.Title := s\<rparr>) (coerce_string ''slack'' k v)
      else if k = ''title_link'' then
        map_sum id (\<lambda>s. c\<lparr>SlackConfig.TitleLink := s\<rparr>) (coerce_string ''slack'' k v)
      else if k = ''pretext'' then
        map_sum id (\<lambda>s. c\<lparr>SlackConfig.Pretext := s\<rparr>) (coerce_string ''slack'' k v)
      else if k = ''text'' then
        map_sum id (\<lambda>s. c\<lparr>SlackConfig.Text := s\<rparr>) (coerce_string ''slack'' k v)
      else if k = ''fallback'' then
        map_sum id (\<lambda>s. c\<lparr>SlackConfig.Fallback := s\<rparr>) (coerce_string ''slack'' k v)
      else Inr (c\<lparr>SlackConfig.XXX := AList.update k v (SlackConfig.XXX c)\<rparr>))"

definition unmarshal_Slack :: "(string \<times> yaml) list \<Rightarrow> SlackConfig \<Rightarrow> error + SlackConfig" where
  "unmarshal_Slack node c = decode Slack_assign node (c\<lparr>SlackConfig.XXX := []\<rparr>)"

definition Webhook_assign :: "string \<Rightarrow> yaml \<Rightarrow> WebhookConfig \<Rightarrow> error + WebhookConfig" where
  "Webhook_assign k v c =
     (if k = ''url'' then
        map_sum id (\<lambda>s. c\<lparr>WebhookConfig.URL := s\<rparr>) (coerce_string ''webhook'' k v)
      else Inr (c\<lparr>WebhookConfig.XXX := AList.update k v (WebhookConfig.XXX c)\<rparr>))"

definition unmarshal_Webhook ::
  "(string \<times> yaml) list \<Rightarrow> WebhookConfig \<Rightarrow> error + WebhookConfig" where
  "unmarshal_Webhook node c = decode Webhook_assign node (c\<lparr>WebhookConfig.XXX := []\<rparr>)"

definition OpsGenie_assign :: "string \<Rightarrow> yaml \<Rightarrow> OpsGenieConfig \<Rightarrow> error + OpsGenieConfig" where
  "OpsGenie_assign k v c =
     (if k = ''api_key'' then
        map_sum id (\<lambda>s. c\<lparr>OpsGenieConfig.APIKey := s\<rparr>) (coerce_string ''opsgenie'' k v)
      else if k = ''api_host'' then
        map_sum id (\<lambda>s. c\<lparr>OpsGenieConfig.APIHost := s\<rparr>) (coerce_string ''opsgenie'' k v)
      else if k = ''description'' then
        map_sum id (\<lambda>s. c\<lparr>OpsGenieConfig.Description := s\<rparr>) (coerce_string ''opsgenie'' k v)
      else if k = ''source'' then
        map_sum id (\<lambda>s. c\<lparr>OpsGenieConfig.Source := s\<rparr>) (coerce_string ''opsgenie'' k v)
      else if k = ''details'' then
        map_sum id (\<lambda>m. c\<lparr>OpsGenieConfig.Details := m\<rparr>)
          (coerce_string_map ''opsgenie'' k v (OpsGenieConfig.Details c))
      else Inr (c\<lparr>OpsGenieConfig.XXX := AList.update k v (OpsGenieConfig.XXX c)\<rparr>))"

definition unmarshal_OpsGenie ::
  "(string \<times> yaml) list \<Rightarrow> OpsGenieConfig \<Rightarrow> error + OpsGenieConfig" where
  "unmarshal_OpsGenie node c = decode OpsGenie_assign node (c\<lparr>OpsGenieConfig.XXX := []\<rparr>)"

text \<open>
  The block that writes out every field of an Email value, residual keys included: what
  re-decoding a decoded value feeds back in.
\<close>

definition EmailConfig_node :: "EmailConfig \<Rightarrow> (string \<times> yaml) list" where
  "EmailConfig_node c =
     [(''to'', YString (EmailConfig.To c)),
      (''from'', YString (EmailConfig.From c)),
      (''smarthost'', YString (EmailConfig.Smarthost c)),
      (''headers'', YMap (map (\<lambda>kv. (fst kv, YString (snd kv))) (EmailConfig.Headers c))),
      (''html'', YString (EmailConfig.HTML c))] @ EmailConfig.XXX c"

text \<open>The zero values the library hands to the methods that assign no default.\<close>

definition zero_FlowdockConfig :: FlowdockConfig where
  "zero_FlowdockConfig =
     \<lparr>FlowdockConfig.APIToken = '''', FlowdockConfig.FromAddress = '''',
      FlowdockConfig.Tags = [], FlowdockConfig.XXX = []\<rparr>"

definition zero_PushoverConfig :: PushoverConfig where
  "zero_PushoverConfig =
     \<lparr>PushoverConfig.Token = '''', PushoverConfig.UserKey = '''', PushoverConfig.XXX = []\<rparr>"

definition zero_WebhookConfig :: WebhookConfig where
  "zero_WebhookConfig = \<lparr>WebhookConfig.URL = '''', WebhookConfig.XXX = []\<rparr>"

section \<open>Properties\<close>

subsection \<open>Title case and the header loop\<close>

text \<open>
  No title-cased name holds a lower-case letter, so none is \<open>Subject\<close>, \<open>To\<close> or
  \<open>From\<close>. The header loop succeeds exactly when the canonical forms are pairwise
  distinct and new to the accumulator, and then appends the renamed entries in order; when
  it fails, it names the canonical form of the first entry whose form was met before.
\<close>

lemma ToTitle_rune_not_lower:
  "ToTitle_rune r \<notin> set ''abcdefghijklmnopqrstuvwxyz''"
  by (simp add: ToTitle_rune_def)

lemma ToTitle_ne_Subject: "ToTitle h \<noteq> ''Subject''"
proof
  assume "ToTitle h = ''Subject''"
  then have "CHR ''u'' \<in> set (ToTitle h)" by simp
  then obtain r where "ToTitle_rune r = CHR ''u''" by (auto simp: ToTitle_def)
  with ToTitle_rune_not_lower [of r] show False by simp
qed

lemma ToTitle_ne_To: "ToTitle h \<noteq> ''To''"
proof
  assume "ToTitle h = ''To''"
  then have "CHR ''o'' \<in> set (ToTitle h)" by simp
  then obtain r where "ToTitle_rune r = CHR ''o''" by (auto simp: ToTitle_def)
  with ToTitle_rune_not_lower [of r] show False by simp
qed

lemma ToTitle_ne_From: "ToTitle h \<noteq> ''From''"
proof
  assume "ToTitle h = ''From''"
  then have "CHR ''o'' \<in> set (ToTitle h)" by simp
  then obtain r where "ToTitle_rune r = CHR ''o''" by (auto simp: ToTitle_def)
  with ToTitle_rune_not_lower [of r] show False by simp
qed

lemma ToTitle_rune_idem: "ToTitle_rune (ToTitle_rune r) = ToTitle_rune r"
  by (simp add: ToTitle_rune_def)

lemma ToTitle_idem: "ToTitle (ToTitle h) = ToTitle h"
  by (simp add: ToTitle_def ToTitle_rune_idem)

lemma update_absent: "map_of al k = None \<Longrightarrow> AList.update k v al = al @ [(k, v)]"
  by (induction al) (auto split: if_splits)

lemma map_of_snoc_None:
  "map_of (acc @ [(k, v)]) k' = None \<longleftrightarrow> map_of acc k' = None \<and> k' \<noteq> k"
  by (auto simp: map_add_def split: option.splits)

lemma normalizeHeaders_Cons_absent:
  "map_of acc (ToTitle h) = None \<Longrightarrow>
   normalizeHeaders ((h, v) # hs) acc = normalizeHeaders hs (acc @ [(ToTitle h, v)])"
  by (simp add: update_absent)

lemma normalizeHeaders_Cons_present:
  "map_of acc (ToTitle h) \<noteq> None \<Longrightarrow>
   normalizeHeaders ((h, v) # hs) acc
     = Inl (Errorf ''duplicate header %q in email config'' [ToTitle h])"
  by simp

lemma normalizeHeaders_distinct:
  "distinct (map (\<lambda>hv. ToTitle (fst hv)) hs) \<Longrightarrow>
   \<forall>hv \<in> set hs. map_of acc (ToTitle (fst hv)) = None \<Longrightarrow>
   normalizeHeaders hs acc = Inr (acc @ map (\<lambda>hv. (ToTitle (fst hv), snd hv)) hs)"
proof (induction hs arbitrary: acc)
  case Nil
  then show ?case by simp
next
  case (Cons hv hs)
  obtain h v where hv: "hv = (h, v)" by (cases hv)
  have absent: "map_of acc (ToTitle h) = None" using Cons.prems(2) hv by simp
  have fresh: "\<forall>x \<in> set hs. ToTitle (fst x) \<noteq> ToTitle h"
    using Cons.prems(1) hv by (auto simp: image_iff)
  have old: "\<forall>x \<in> set hs. map_of acc (ToTitle (fst x)) = None"
    using Cons.prems(2) by simp
  have a: "\<forall>x \<in> set hs. map_of (acc @ [(ToTitle h, v)]) (ToTitle (fst x)) = None"
    using old fresh by (simp only: map_of_snoc_None) blast
  have d: "distinct (map (\<lambda>hv. ToTitle (fst hv)) hs)" using Cons.prems(1) by simp
  have "normalizeHeaders hs (acc @ [(ToTitle h, v)])
      = Inr ((acc @ [(ToTitle h, v)]) @ map (\<lambda>hv. (ToTitle (fst hv), snd hv)) hs)"
    using d a by (rule Cons.IH)
  then show ?case
    unfolding hv by (simp only: normalizeHeaders_Cons_absent[OF absent]) simp
qed

lemma normalizeHeaders_Inr:
  "normalizeHeaders hs acc = Inr nh \<Longrightarrow>
   distinct (map (\<lambda>hv. ToTitle (fst hv)) hs)
   \<and> (\<forall>hv \<in> set hs. map_of acc (ToTitle (fst hv)) = None)
   \<and> nh = acc @ map (\<lambda>hv. (ToTitle (fst hv), snd hv)) hs"
proof (induction hs arbitrary: acc)
  case Nil
  then show ?case by simp
next
  case (Cons hv hs)
  obtain h v where hv: "hv = (h, v)" by (cases hv)
  have absent: "map_of acc (ToTitle h) = None"
  proof (rule ccontr)
    assume "map_of acc (ToTitle h) \<noteq> None"
    from normalizeHeaders_Cons_present[OF this] Cons.prems hv show False by simp
  qed
  have rest: "normalizeHeaders hs (acc @ [(ToTitle h, v)]) = Inr nh"
    using Cons.prems hv normalizeHeaders_Cons_absent[OF absent] by simp
  note ih = Cons.IH[OF rest]
  from ih have d: "distinct (map (\<lambda>hv. ToTitle (fst hv)) hs)" by (rule conjunct1)
  from ih have a: "\<forall>x \<in> set hs. map_of (acc @ [(ToTitle h, v)]) (ToTitle (fst x)) = None"
    by (rule conjunct2[THEN conjunct1])
  from ih have nh: "nh = (acc @ [(ToTitle h, v)]) @ map (\<lambda>hv. (ToTitle (fst hv), snd hv)) hs"
    by (rule conjunct2[THEN conjunct2])
  from a have a1: "\<forall>x \<in> set hs. map_of acc (ToTitle (fst x)) = None"
    by (simp only: map_of_snoc_None) blast
  from a have a2: "\<forall>x \<in> set hs. ToTitle (fst x) \<noteq> ToTitle h"
    by (simp only: map_of_snoc_None) blast
  from a2 have "ToTitle h \<notin> set (map (\<lambda>hv. ToTitle (fst hv)) hs)" by auto
  with d have c1: "distinct (map (\<lambda>hv. ToTitle (fst hv)) (hv # hs))" using hv by simp
  have c2: "\<forall>x \<in> set (hv # hs). map_of acc (ToTitle (fst x)) = None"
    using a1 absent hv by simp
  have c3: "nh = acc @ map (\<lambda>hv. (ToTitle (fst hv), snd hv)) (hv # hs)"
    using nh hv by simp
  from c1 c2 c3 show ?case by (intro conjI)
qed

lemma normalizeHeaders_Inl:
  "normalizeHeaders hs acc = Inl e \<Longrightarrow>
   \<exists>pre h v post. hs = pre @ (h, v) # post
     \<and> e = Errorf ''duplicate header %q in email config'' [ToTitle h]
     \<and> (map_of acc (ToTitle h) \<noteq> None
        \<or> ToTitle h \<in> (\<lambda>x. ToTitle (fst x)) ` set pre)"
proof (induction hs arbitrary: acc)
  case Nil
  then show ?case by simp
next
  case (Cons hv hs)
  obtain h0 v0 where hv: "hv = (h0, v0)" by (cases hv)
  show ?case
  proof (cases "map_of acc (ToTitle h0) = None")
    case False
    have "e = Errorf ''duplicate header %q in email config'' [ToTitle h0]"
      using normalizeHeaders_Cons_present[OF False, of v0 hs] Cons.prems hv by simp
    with False hv have "hv # hs = [] @ (h0, v0) # hs
      \<and> e = Errorf ''duplicate header %q in email config'' [ToTitle h0]
      \<and> (map_of acc (ToTitle h0) \<noteq> None
          \<or> ToTitle h0 \<in> (\<lambda>x. ToTitle (fst x)) ` set [])" by simp
    then show ?thesis by (intro exI)
  next
    case True
    have rest: "normalizeHeaders hs (acc @ [(ToTitle h0, v0)]) = Inl e"
      using Cons.prems hv normalizeHeaders_Cons_absent[OF True] by simp
    from Cons.IH[OF rest] obtain pre h v post where
      split: "hs = pre @ (h, v) # post"
      and e: "e = Errorf ''duplicate header %q in email config'' [ToTitle h]"
      and c: "map_of (acc @ [(ToTitle h0, v0)]) (ToTitle h) \<noteq> None
              \<or> ToTitle h \<in> (\<lambda>x. ToTitle (fst x)) ` set pre"
      by blast
    have c': "map_of acc (ToTitle h) \<noteq> None
        \<or> ToTitle h \<in> (\<lambda>x. ToTitle (fst x)) ` set ((h0, v0) # pre)"
    proof (cases "ToTitle h = ToTitle h0")
      case True
      then show ?thesis by simp
    next
      case False
      with c show ?thesis using map_of_snoc_None[of acc "ToTitle h0" v0 "ToTitle h"] by auto
    qed
    have "hv # hs = ((h0, v0) # pre) @ (h, v) # post" using split hv by simp
    with e c' show ?thesis by blast
  qed
qed

lemma titled_lookup_None:
  "\<forall>h. k \<noteq> ToTitle h \<Longrightarrow> map_of (map (\<lambda>hv. (ToTitle (fst hv), snd hv)) hs) k = None"
  by (induction hs) auto

lemma setDefaultHeader_absent:
  "map_of hs k = None \<Longrightarrow> setDefaultHeader k v hs = hs @ [(k, v)]"
  by (simp add: setDefaultHeader_def update_absent)

lemma setDefaultHeader_titled:
  "setDefaultHeader ''From'' f
     (setDefaultHeader ''To'' t
        (setDefaultHeader ''Subject'' d (map (\<lambda>hv. (ToTitle (fst hv), snd hv)) hs)))
   = map (\<lambda>hv. (ToTitle (fst hv), snd hv)) hs @ [(''Subject'', d), (''To'', t), (''From'', f)]"
proof -
  let ?nh = "map (\<lambda>hv. (ToTitle (fst hv), snd hv)) hs"
  have s: "map_of ?nh ''Subject'' = None"
    by (rule titled_lookup_None) (metis ToTitle_ne_Subject)
  have t: "map_of ?nh ''To'' = None"
    by (rule titled_lookup_None) (metis ToTitle_ne_To)
  have f: "map_of ?nh ''From'' = None"
    by (rule titled_lookup_None) (metis ToTitle_ne_From)
  have t': "map_of (?nh @ [(''Subject'', d)]) ''To'' = None"
    using t by (simp only: map_of_snoc_None) simp
  have f1: "map_of (?nh @ [(''Subject'', d)]) ''From'' = None"
    using f by (simp only: map_of_snoc_None) simp
  have f': "map_of ((?nh @ [(''Subject'', d)]) @ [(''To'', t)]) ''From'' = None"
    using f1 by (simp only: map_of_snoc_None) simp
  show ?thesis
    by (simp only: setDefaultHeader_absent[OF s] setDefaultHeader_absent[OF t']
        setDefaultHeader_absent[OF f']) simp
qed

lemma Email_loop_ok:
  assumes "unmarshal DefaultEmailConfig = Inr c" "EmailConfig.To c \<noteq> ''''"
    and "distinct (map (\<lambda>hv. ToTitle (fst hv)) (EmailConfig.Headers c))"
  shows "EmailConfig_UnmarshalYAML unmarshal
    = returning (checkOverflow (EmailConfig.XXX c) ''email config'')
        (c\<lparr>EmailConfig.Headers :=
            map (\<lambda>hv. (ToTitle (fst hv), snd hv)) (EmailConfig.Headers c)
              @ [(''Subject'', DefaultEmailSubject), (''To'', EmailConfig.To c),
                 (''From'', EmailConfig.From c)]\<rparr>)"
proof -
  have "normalizeHeaders (EmailConfig.Headers c) []
      = Inr ([] @ map (\<lambda>hv. (ToTitle (fst hv), snd hv)) (EmailConfig.Headers c))"
    using assms(3) by (rule normalizeHeaders_distinct) simp
  then have n: "normalizeHeaders (EmailConfig.Headers c) []
      = Inr (map (\<lambda>hv. (ToTitle (fst hv), snd hv)) (EmailConfig.Headers c))" by simp
  show ?thesis
    using assms(1,2) n
    by (simp add: EmailConfig_UnmarshalYAML_def setDefaultHeader_titled Let_def)
qed

lemma Email_loop_fails:
  assumes "unmarshal DefaultEmailConfig = Inr c" "EmailConfig.To c \<noteq> ''''"
    and "\<not> distinct (map (\<lambda>hv. ToTitle (fst hv)) (EmailConfig.Headers c))"
  shows "\<exists>pre h v post. EmailConfig.Headers c = pre @ (h, v) # post
     \<and> ToTitle h \<in> (\<lambda>x. ToTitle (fst x)) ` set pre
     \<and> EmailConfig_UnmarshalYAML unmarshal
         = Inl (Errorf ''duplicate header %q in email config'' [ToTitle h])"
proof -
  obtain e where e: "normalizeHeaders (EmailConfig.Headers c) [] = Inl e"
  proof (cases "normalizeHeaders (EmailConfig.Headers c) []")
    case (Inl e)
    then show ?thesis by (rule that)
  next
    case (Inr nh)
    from normalizeHeaders_Inr[OF Inr] assms(3) show ?thesis by blast
  qed
  from normalizeHeaders_Inl[OF e] obtain pre h v post where
    all: "EmailConfig.Headers c = pre @ (h, v) # post
     \<and> e = Errorf ''duplicate header %q in email config'' [ToTitle h]
     \<and> (map_of ([] :: (string \<times> string) list) (ToTitle h) \<noteq> None
        \<or> ToTitle h \<in> (\<lambda>x. ToTitle (fst x)) ` set pre)"
    by (elim exE) (rule that)
  from all have sp: "EmailConfig.Headers c = pre @ (h, v) # post" by (rule conjunct1)
  from all have ee: "e = Errorf ''duplicate header %q in email config'' [ToTitle h]"
    by (rule conjunct2[THEN conjunct1])
  from all have m0: "map_of ([] :: (string \<times> string) list) (ToTitle h) \<noteq> None
        \<or> ToTitle h \<in> (\<lambda>x. ToTitle (fst x)) ` set pre"
    by (rule conjunct2[THEN conjunct2])
  from m0 have m: "ToTitle h \<in> (\<lambda>x. ToTitle (fst x)) ` set pre" by simp
  have "EmailConfig_UnmarshalYAML unmarshal = Inl e"
    using assms(1,2) e by (simp add: EmailConfig_UnmarshalYAML_def)
  with sp ee m show ?thesis by blast
qed

subsection \<open>Webhook: the required field and the residual keys\<close>

text \<open>
  C2. Decoding the Webhook block \<open>{url: ""}\<close> fails with the missing-URL error. Decoding
  \<open>{url: "http://x", foo: 1}\<close> fails with the unrecognized-fields error naming \<open>foo\<close>, but
  the context string \<^verbatim>\<open>WebhookConfig.UnmarshalYAML\<close> passes to \<^verbatim>\<open>checkOverflow\<close> is
  \<open>slack config\<close>: the error does not identify the Webhook variant.
\<close>

theorem C2_webhook_unrecognized_says_slack:
  "WebhookConfig_UnmarshalYAML (unmarshal_Webhook [(''url'', YString '''')]) zero_WebhookConfig
     = Inl (Errorf ''missing URL in webhook config'' [])
   \<and> WebhookConfig_UnmarshalYAML
       (unmarshal_Webhook [(''url'', YString ''http://x''), (''foo'', YInt 1)]) zero_WebhookConfig
     = Inl (UnrecognizedFields ''slack config'' [''foo''])
   \<and> \<not> error_names (UnrecognizedFields ''slack config'' [''foo'']) ''webhook''"
  by code_simp

subsection \<open>Email: the headers of a decoded block\<close>

text \<open>
  C6. Decoding the Email block \<open>{to: "a@b.com", from: "c@d.com"}\<close> succeeds, and the
  headers of the result are \<open>Subject\<close> with the default subject template, \<open>To\<close> with
  \<open>a@b.com\<close> and \<open>From\<close> with \<open>c@d.com\<close>.
\<close>

theorem C6_email_to_from_defaults:
  "EmailConfig_UnmarshalYAML
     (unmarshal_Email [(''to'', YString ''a@b.com''), (''from'', YString ''c@d.com'')])
   = Inr \<lparr>EmailConfig.To = ''a@b.com'', EmailConfig.From = ''c@d.com'',
          EmailConfig.Smarthost = '''',
          EmailConfig.Headers =
            [(''Subject'', DefaultEmailSubject), (''To'', ''a@b.com''), (''From'', ''c@d.com'')],
          EmailConfig.HTML = EmailConfig.HTML DefaultEmailConfig,
          EmailConfig.XXX = []\<rparr>"
  by code_simp

text \<open>
  C4. A block that supplies a \<open>Subject\<close> header keeps the operator's value under the
  key \<open>SUBJECT\<close>, the form \<^verbatim>\<open>strings.ToTitle\<close> gives it, and still receives the default
  subject template under the key \<open>Subject\<close>: the guard looks the literal \<open>Subject\<close> up in
  a map whose keys were all upper-cased.
\<close>

theorem C4_subject_default_inserted_beside_supplied:
  "EmailConfig_UnmarshalYAML
     (unmarshal_Email
        [(''to'', YString ''a@b.com''), (''headers'', YMap [(''Subject'', YString ''custom'')])])
   = Inr \<lparr>EmailConfig.To = ''a@b.com'', EmailConfig.From = '''',
          EmailConfig.Smarthost = '''',
          EmailConfig.Headers =
            [(''SUBJECT'', ''custom''), (''Subject'', DefaultEmailSubject),
             (''To'', ''a@b.com''), (''From'', '''')],
          EmailConfig.HTML = EmailConfig.HTML DefaultEmailConfig,
          EmailConfig.XXX = []\<rparr>"
  by code_simp

text \<open>
  C3. The Email block \<open>{to: "a@b.com", headers: {subject: "hi"}}\<close> decodes successfully;
  decoding its output again, written out as a block, fails with a duplicate-header error:
  the output holds both \<open>SUBJECT\<close> and the inserted \<open>Subject\<close>, which have one canonical
  form.
\<close>

theorem C3_redecoding_email_output_fails:
  "EmailConfig_UnmarshalYAML
     (unmarshal_Email
        [(''to'', YString ''a@b.com''), (''headers'', YMap [(''subject'', YString ''hi'')])])
   = Inr \<lparr>EmailConfig.To = ''a@b.com'', EmailConfig.From = '''',
          EmailConfig.Smarthost = '''',
          EmailConfig.Headers =
            [(''SUBJECT'', ''hi''), (''Subject'', DefaultEmailSubject),
             (''To'', ''a@b.com''), (''From'', '''')],
          EmailConfig.HTML = EmailConfig.HTML DefaultEmailConfig,
          EmailConfig.XXX = []\<rparr>
   \<and> EmailConfig_UnmarshalYAML
       (unmarshal_Email
          (EmailConfig_node
             \<lparr>EmailConfig.To = ''a@b.com'', EmailConfig.From = '''',
              EmailConfig.Smarthost = '''',
              EmailConfig.Headers =
                [(''SUBJECT'', ''hi''), (''Subject'', DefaultEmailSubject),
                 (''To'', ''a@b.com''), (''From'', '''')],
              EmailConfig.HTML = EmailConfig.HTML DefaultEmailConfig,
              EmailConfig.XXX = []\<rparr>))
     = Inl (Errorf ''duplicate header %q in email config'' [''SUBJECT''])"
  by code_simp

subsection \<open>PagerDuty: the default's Details map\<close>

text \<open>
  C9. The PagerDuty block \<open>{service_key: "k", details: {firing: "x"}}\<close> decodes
  successfully, and afterwards the map object at address 0, which is the \<open>Details\<close> map
  of \<^verbatim>\<open>DefaultPagerdutyConfig\<close>, holds \<open>x\<close> under \<open>firing\<close>: the decoded value and the
  default share the map, and the decode wrote into it.
\<close>

theorem C9_pagerduty_decode_writes_default_details:
  "store_get init_store 0 = Some DefaultPagerdutyDetails
   \<and> PagerdutyConfig.Details DefaultPagerdutyConfig = Some 0
   \<and> fst (PagerdutyConfig_UnmarshalYAML
        (unmarshal_Pagerduty
           [(''service_key'', YString ''k''), (''details'', YMap [(''firing'', YString ''x'')])])
        init_store)
     = Inr (DefaultPagerdutyConfig\<lparr>PagerdutyConfig.ServiceKey := ''k''\<rparr>)
   \<and> store_get
       (snd (PagerdutyConfig_UnmarshalYAML
          (unmarshal_Pagerduty
             [(''service_key'', YString ''k''), (''details'', YMap [(''firing'', YString ''x'')])])
          init_store)) 0
     = Some (AList.update ''firing'' ''x'' DefaultPagerdutyDetails)
   \<and> map_of (AList.update ''firing'' ''x'' DefaultPagerdutyDetails) ''firing''
       \<noteq> map_of DefaultPagerdutyDetails ''firing''"
  by code_simp

subsection \<open>The order of the checks\<close>

text \<open>
  C8. A Hipchat decode whose auth token is empty reports the missing auth token, whatever
  the message format is; with an auth token and a message format outside html and text
  it reports the invalid message format, whatever the residual keys are. An Email decode
  whose \<open>to\<close> is empty reports the missing address, whatever the headers are: the header
  loop is not reached.
\<close>

theorem C8_required_fields_checked_first:
  "(unmarshal_h DefaultHipchatConfig = Inr ch \<and> HipchatConfig.AuthToken ch = '''' \<longrightarrow>
      HipchatConfig_UnmarshalYAML unmarshal_h
        = Inl (Errorf ''missing auth token in HipChat config'' []))
   \<and> (unmarshal_h DefaultHipchatConfig = Inr ch \<and> HipchatConfig.AuthToken ch \<noteq> ''''
        \<and> HipchatConfig.MessageFormat ch \<noteq> HipchatFormatHTML
        \<and> HipchatConfig.MessageFormat ch \<noteq> HipchatFormatText \<longrightarrow>
      HipchatConfig_UnmarshalYAML unmarshal_h
        = Inl (Errorf ''invalid message format %q'' [HipchatConfig.MessageFormat ch]))
   \<and> (unmarshal_e DefaultEmailConfig = Inr ce \<and> EmailConfig.To ce = '''' \<longrightarrow>
      EmailConfig_UnmarshalYAML unmarshal_e
        = Inl (Errorf ''missing to address in email config'' []))"
  by (simp add: HipchatConfig_UnmarshalYAML_def EmailConfig_UnmarshalYAML_def)

theorem C8_required_fields_checked_first_witness:
  "unmarshal_Hipchat [(''message_format'', YString ''markdown'')] DefaultHipchatConfig
     = Inr (DefaultHipchatConfig\<lparr>HipchatConfig.MessageFormat := ''markdown''\<rparr>)
   \<and> HipchatConfig_UnmarshalYAML (unmarshal_Hipchat [(''message_format'', YString ''markdown'')])
     = Inl (Errorf ''missing auth token in HipChat config'' [])
   \<and> HipchatConfig_UnmarshalYAML
       (unmarshal_Hipchat
          [(''auth_token'', YString ''t''), (''message_format'', YString ''markdown''),
           (''foo'', YInt 1)])
     = Inl (Errorf ''invalid message format %q'' [''markdown''])
   \<and> unmarshal_Email
       [(''headers'', YMap [(''Content-Type'', YString ''x''), (''content-type'', YString ''y'')])]
       DefaultEmailConfig
     = Inr (DefaultEmailConfig\<lparr>EmailConfig.Headers :=
              [(''Content-Type'', ''x''), (''content-type'', ''y'')]\<rparr>)
   \<and> EmailConfig_UnmarshalYAML
       (unmarshal_Email
          [(''headers'', YMap [(''Content-Type'', YString ''x''), (''content-type'', YString ''y'')])])
     = Inl (Errorf ''missing to address in email config'' [])"
proof -
  have h1: "unmarshal_Hipchat [(''message_format'', YString ''markdown'')] DefaultHipchatConfig
     = Inr (DefaultHipchatConfig\<lparr>HipchatConfig.MessageFormat := ''markdown''\<rparr>)"
    by code_simp
  have a1: "HipchatConfig.AuthToken
      (DefaultHipchatConfig\<lparr>HipchatConfig.MessageFormat := ''markdown''\<rparr>) = ''''"
    by code_simp
  have h2: "unmarshal_Hipchat
      [(''auth_token'', YString ''t''), (''message_format'', YString ''markdown''),
       (''foo'', YInt 1)] DefaultHipchatConfig
     = Inr (DefaultHipchatConfig\<lparr>HipchatConfig.AuthToken := ''t'',
          HipchatConfig.MessageFormat := ''markdown'',
          HipchatConfig.XXX := [(''foo'', YInt 1)]\<rparr>)"
    by code_simp
  have a2: "HipchatConfig.AuthToken (DefaultHipchatConfig\<lparr>HipchatConfig.AuthToken := ''t'',
          HipchatConfig.MessageFormat := ''markdown'',
          HipchatConfig.XXX := [(''foo'', YInt 1)]\<rparr>) \<noteq> ''''
     \<and> HipchatConfig.MessageFormat (DefaultHipchatConfig\<lparr>HipchatConfig.AuthToken := ''t'',
          HipchatConfig.MessageFormat := ''markdown'',
          HipchatConfig.XXX := [(''foo'', YInt 1)]\<rparr>) \<noteq> HipchatFormatHTML
     \<and> HipchatConfig.MessageFormat (DefaultHipchatConfig\<lparr>HipchatConfig.AuthToken := ''t'',
          HipchatConfig.MessageFormat := ''markdown'',
          HipchatConfig.XXX := [(''foo'', YInt 1)]\<rparr>) \<noteq> HipchatFormatText"
    by (simp add: HipchatFormatHTML_def HipchatFormatText_def)
  have h3: "unmarshal_Email
       [(''headers'', YMap [(''Content-Type'', YString ''x''), (''content-type'', YString ''y'')])]
       DefaultEmailConfig
     = Inr (DefaultEmailConfig\<lparr>EmailConfig.Headers :=
              [(''Content-Type'', ''x''), (''content-type'', ''y'')]\<rparr>)"
    by code_simp
  have a3: "EmailConfig.To (DefaultEmailConfig\<lparr>EmailConfig.Headers :=
              [(''Content-Type'', ''x''), (''content-type'', ''y'')]\<rparr>) = ''''"
    by (simp add: DefaultEmailConfig_def)
  have t1: "HipchatConfig_UnmarshalYAML
      (unmarshal_Hipchat [(''message_format'', YString ''markdown'')])
     = Inl (Errorf ''missing auth token in HipChat config'' [])"
    using h1 a1
      C8_required_fields_checked_first
        [where unmarshal_h = "unmarshal_Hipchat [(''message_format'', YString ''markdown'')]"
           and ch = "DefaultHipchatConfig\<lparr>HipchatConfig.MessageFormat := ''markdown''\<rparr>"]
    by blast
  have t2: "HipchatConfig_UnmarshalYAML
       (unmarshal_Hipchat
          [(''auth_token'', YString ''t''), (''message_format'', YString ''markdown''),
           (''foo'', YInt 1)])
     = Inl (Errorf ''invalid message format %q''
         [HipchatConfig.MessageFormat (DefaultHipchatConfig\<lparr>HipchatConfig.AuthToken := ''t'',
          HipchatConfig.MessageFormat := ''markdown'',
          HipchatConfig.XXX := [(''foo'', YInt 1)]\<rparr>)])"
    using h2 a2
      C8_required_fields_checked_first
        [where unmarshal_h = "unmarshal_Hipchat
            [(''auth_token'', YString ''t''), (''message_format'', YString ''markdown''),
             (''foo'', YInt 1)]"
           and ch = "DefaultHipchatConfig\<lparr>HipchatConfig.AuthToken := ''t'',
              HipchatConfig.MessageFormat := ''markdown'',
              HipchatConfig.XXX := [(''foo'', YInt 1)]\<rparr>"]
    by blast
  have t3: "EmailConfig_UnmarshalYAML
       (unmarshal_Email
          [(''headers'', YMap [(''Content-Type'', YString ''x''), (''content-type'', YString ''y'')])])
     = Inl (Errorf ''missing to address in email config'' [])"
    using h3 a3
      C8_required_fields_checked_first
        [where unmarshal_e = "unmarshal_Email
            [(''headers'', YMap [(''Content-Type'', YString ''x''),
                                (''content-type'', YString ''y'')])]"
           and ce = "DefaultEmailConfig\<lparr>EmailConfig.Headers :=
              [(''Content-Type'', ''x''), (''content-type'', ''y'')]\<rparr>"]
    by blast
  from h1 h3 t1 t2 t3 show ?thesis by simp
qed

subsection \<open>Email: duplicate headers\<close>

text \<open>
  C5 (as amended). For an Email decode that passes the required-field check (the callback
  succeeded and \<open>to\<close> is not empty), with the header map's keys distinct as in any Go map:
  if two distinct supplied names have the same canonical form, decoding fails with a
  duplicate-header error that names the canonical form of two distinct supplied names
  (the first form the loop meets twice); if the canonical forms are pairwise distinct, no
  duplicate-header error occurs.
\<close>

theorem C5_duplicate_header_names_a_colliding_form:
  assumes "unmarshal DefaultEmailConfig = Inr c"
    and "EmailConfig.To c \<noteq> ''''"
    and "distinct (map fst (EmailConfig.Headers c))"
  shows "((\<exists>h1 \<in> fst ` set (EmailConfig.Headers c). \<exists>h2 \<in> fst ` set (EmailConfig.Headers c).
            h1 \<noteq> h2 \<and> ToTitle h1 = ToTitle h2) \<longrightarrow>
          (\<exists>h1 \<in> fst ` set (EmailConfig.Headers c). \<exists>h2 \<in> fst ` set (EmailConfig.Headers c).
            h1 \<noteq> h2 \<and> ToTitle h1 = ToTitle h2
            \<and> EmailConfig_UnmarshalYAML unmarshal
                = Inl (Errorf ''duplicate header %q in email config'' [ToTitle h1])))
       \<and> (inj_on ToTitle (fst ` set (EmailConfig.Headers c)) \<longrightarrow>
          (\<forall>n. EmailConfig_UnmarshalYAML unmarshal
                \<noteq> Inl (Errorf ''duplicate header %q in email config'' [n])))"
proof (intro conjI impI)
  let ?hs = "EmailConfig.Headers c"
  have dm: "distinct (map (\<lambda>hv. ToTitle (fst hv)) ?hs) \<longleftrightarrow> inj_on ToTitle (fst ` set ?hs)"
  proof -
    have "map (\<lambda>hv. ToTitle (fst hv)) ?hs = map ToTitle (map fst ?hs)" by simp
    then show ?thesis using assms(3) by (simp only: distinct_map) simp
  qed
  {
    assume "\<exists>h1 \<in> fst ` set ?hs. \<exists>h2 \<in> fst ` set ?hs. h1 \<noteq> h2 \<and> ToTitle h1 = ToTitle h2"
    then have "\<not> inj_on ToTitle (fst ` set ?hs)" unfolding inj_on_def by blast
    then have nd: "\<not> distinct (map (\<lambda>hv. ToTitle (fst hv)) ?hs)" using dm by simp
    from Email_loop_fails[of unmarshal c, OF assms(1,2) nd] obtain pre h v post where
      sp: "?hs = pre @ (h, v) # post"
      and m: "ToTitle h \<in> (\<lambda>x. ToTitle (fst x)) ` set pre"
      and r: "EmailConfig_UnmarshalYAML unmarshal
         = Inl (Errorf ''duplicate header %q in email config'' [ToTitle h])"
      by blast
    from m obtain x where x: "x \<in> set pre" "ToTitle (fst x) = ToTitle h" by auto
    have "fst x \<in> fst ` set pre" using x(1) by simp
    moreover have "h \<notin> fst ` set pre" using assms(3) sp by auto
    ultimately have ne: "h \<noteq> fst x" by blast
    have in1: "h \<in> fst ` set ?hs" using sp by force
    have in2: "fst x \<in> fst ` set ?hs" using sp x(1) by force
    from in1 in2 ne x(2) r
    show "\<exists>h1 \<in> fst ` set ?hs. \<exists>h2 \<in> fst ` set ?hs. h1 \<noteq> h2 \<and> ToTitle h1 = ToTitle h2
            \<and> EmailConfig_UnmarshalYAML unmarshal
                = Inl (Errorf ''duplicate header %q in email config'' [ToTitle h1])"
      by metis
  }
  {
    assume "inj_on ToTitle (fst ` set ?hs)"
    then have d: "distinct (map (\<lambda>hv. ToTitle (fst hv)) ?hs)" using dm by simp
    show "\<forall>n. EmailConfig_UnmarshalYAML unmarshal
                \<noteq> Inl (Errorf ''duplicate header %q in email config'' [n])"
      unfolding Email_loop_ok[of unmarshal c, OF assms(1,2) d]
      by (simp add: checkOverflow_def)
  }
qed

theorem C5_duplicate_header_names_a_colliding_form_witness:
  "unmarshal_Email
      [(''to'', YString ''a@b.com''),
       (''headers'', YMap [(''Content-Type'', YString ''x''), (''content-type'', YString ''y'')])]
      DefaultEmailConfig
     = Inr (DefaultEmailConfig\<lparr>EmailConfig.To := ''a@b.com'',
            EmailConfig.Headers := [(''Content-Type'', ''x''), (''content-type'', ''y'')]\<rparr>)
   \<and> (\<exists>h1 \<in> {''Content-Type'', ''content-type''}. \<exists>h2 \<in> {''Content-Type'', ''content-type''}.
         h1 \<noteq> h2 \<and> ToTitle h1 = ToTitle h2
         \<and> EmailConfig_UnmarshalYAML
             (unmarshal_Email
                [(''to'', YString ''a@b.com''),
                 (''headers'', YMap [(''Content-Type'', YString ''x''),
                                    (''content-type'', YString ''y'')])])
           = Inl (Errorf ''duplicate header %q in email config'' [ToTitle h1]))
   \<and> unmarshal_Email
      [(''to'', YString ''a@b.com''),
       (''headers'', YMap [(''Content-Type'', YString ''x''), (''X-Priority'', YString ''1'')])]
      DefaultEmailConfig
     = Inr (DefaultEmailConfig\<lparr>EmailConfig.To := ''a@b.com'',
            EmailConfig.Headers := [(''Content-Type'', ''x''), (''X-Priority'', ''1'')]\<rparr>)
   \<and> inj_on ToTitle {''Content-Type'', ''X-Priority''}
   \<and> (\<forall>n. EmailConfig_UnmarshalYAML
             (unmarshal_Email
                [(''to'', YString ''a@b.com''),
                 (''headers'', YMap [(''Content-Type'', YString ''x''),
                                    (''X-Priority'', YString ''1'')])])
           \<noteq> Inl (Errorf ''duplicate header %q in email config'' [n]))"
proof -
  let ?b1 = "[(''to'', YString ''a@b.com''),
       (''headers'', YMap [(''Content-Type'', YString ''x''), (''content-type'', YString ''y'')])]"
  let ?c1 = "DefaultEmailConfig\<lparr>EmailConfig.To := ''a@b.com'',
            EmailConfig.Headers := [(''Content-Type'', ''x''), (''content-type'', ''y'')]\<rparr>"
  let ?b2 = "[(''to'', YString ''a@b.com''),
       (''headers'', YMap [(''Content-Type'', YString ''x''), (''X-Priority'', YString ''1'')])]"
  let ?c2 = "DefaultEmailConfig\<lparr>EmailConfig.To := ''a@b.com'',
            EmailConfig.Headers := [(''Content-Type'', ''x''), (''X-Priority'', ''1'')]\<rparr>"
  have h1: "unmarshal_Email ?b1 DefaultEmailConfig = Inr ?c1" by code_simp
  have t1: "EmailConfig.To ?c1 \<noteq> ''''" by simp
  have d1: "distinct (map fst (EmailConfig.Headers ?c1))" by simp
  have k1: "fst ` set (EmailConfig.Headers ?c1) = {''Content-Type'', ''content-type''}" by simp
  have tt: "ToTitle ''Content-Type'' = ToTitle ''content-type''" by code_simp
  have p1: "\<exists>h1 \<in> fst ` set (EmailConfig.Headers ?c1). \<exists>h2 \<in> fst ` set (EmailConfig.Headers ?c1).
      h1 \<noteq> h2 \<and> ToTitle h1 = ToTitle h2"
    unfolding k1 using tt by auto
  have w1: "\<exists>h1 \<in> {''Content-Type'', ''content-type''}. \<exists>h2 \<in> {''Content-Type'', ''content-type''}.
         h1 \<noteq> h2 \<and> ToTitle h1 = ToTitle h2
         \<and> EmailConfig_UnmarshalYAML (unmarshal_Email ?b1)
           = Inl (Errorf ''duplicate header %q in email config'' [ToTitle h1])"
    using C5_duplicate_header_names_a_colliding_form
      [of "unmarshal_Email ?b1" ?c1, OF h1 t1 d1, THEN conjunct1, THEN mp, OF p1]
    unfolding k1 .
  have h2: "unmarshal_Email ?b2 DefaultEmailConfig = Inr ?c2" by code_simp
  have t2: "EmailConfig.To ?c2 \<noteq> ''''" by simp
  have d2: "distinct (map fst (EmailConfig.Headers ?c2))" by simp
  have k2: "fst ` set (EmailConfig.Headers ?c2) = {''Content-Type'', ''X-Priority''}" by simp
  have ne: "ToTitle ''Content-Type'' \<noteq> ToTitle ''X-Priority''" by code_simp
  have i2: "inj_on ToTitle {''Content-Type'', ''X-Priority''}" using ne by simp
  have i2': "inj_on ToTitle (fst ` set (EmailConfig.Headers ?c2))" unfolding k2 by (rule i2)
  have w2: "\<forall>n. EmailConfig_UnmarshalYAML (unmarshal_Email ?b2)
           \<noteq> Inl (Errorf ''duplicate header %q in email config'' [n])"
    using C5_duplicate_header_names_a_colliding_form
      [of "unmarshal_Email ?b2" ?c2, OF h2 t2 d2, THEN conjunct2, THEN mp, OF i2'] .
  from h1 w1 h2 i2 w2 show ?thesis by (intro conjI)
qed

text \<open>
  C5 as stated fails where two pairs of names collide: for the headers \<open>a\<close>, \<open>A\<close>, \<open>b\<close>,
  \<open>B\<close> visited in this order the error names \<open>A\<close>, so the distinct names \<open>b\<close> and \<open>B\<close>
  share the canonical form \<open>B\<close> and the error does not name it.
\<close>

theorem C5_other_colliding_pair_not_named:
  "EmailConfig_UnmarshalYAML
     (unmarshal_Email
        [(''to'', YString ''a@b.com''),
         (''headers'', YMap [(''a'', YString ''1''), (''A'', YString ''2''),
                            (''b'', YString ''3''), (''B'', YString ''4'')])])
     = Inl (Errorf ''duplicate header %q in email config'' [''A''])
   \<and> ''b'' \<noteq> ''B'' \<and> ToTitle ''b'' = ''B'' \<and> ToTitle ''B'' = ''B''
   \<and> Errorf ''duplicate header %q in email config'' [''A'']
       \<noteq> Errorf ''duplicate header %q in email config'' [''B'']"
  by code_simp

subsection \<open>Email: the headers after a successful decode\<close>

text \<open>
  C10. After every successful Email decode the result's \<open>To\<close> and \<open>From\<close> fields are
  the decoded ones, and the headers hold \<open>Subject\<close> with the default subject template,
  \<open>To\<close> with the \<open>To\<close> field and \<open>From\<close> with the \<open>From\<close> field. Every supplied header
  is found under its title-cased name, and every entry of the result is one of the three
  inserted entries or a supplied entry under its title-cased name, which title-casing
  leaves as it is: no supplied entry appears under a spelling that is not title-cased.
\<close>

theorem C10_email_headers_after_success:
  assumes "unmarshal DefaultEmailConfig = Inr c"
    and "EmailConfig_UnmarshalYAML unmarshal = Inr c'"
  shows "EmailConfig.To c' = EmailConfig.To c \<and> EmailConfig.From c' = EmailConfig.From c
     \<and> map_of (EmailConfig.Headers c') ''Subject'' = Some DefaultEmailSubject
     \<and> map_of (EmailConfig.Headers c') ''To'' = Some (EmailConfig.To c')
     \<and> map_of (EmailConfig.Headers c') ''From'' = Some (EmailConfig.From c')
     \<and> (\<forall>hv \<in> set (EmailConfig.Headers c).
           map_of (EmailConfig.Headers c') (ToTitle (fst hv)) = Some (snd hv))
     \<and> (\<forall>kv \<in> set (EmailConfig.Headers c').
           kv \<in> {(''Subject'', DefaultEmailSubject), (''To'', EmailConfig.To c'),
                 (''From'', EmailConfig.From c')}
           \<or> (ToTitle (fst kv) = fst kv
               \<and> (\<exists>hv \<in> set (EmailConfig.Headers c). kv = (ToTitle (fst hv), snd hv))))"
proof -
  let ?hs = "EmailConfig.Headers c"
  let ?nh = "map (\<lambda>hv. (ToTitle (fst hv), snd hv)) ?hs"
  let ?three = "[(''Subject'', DefaultEmailSubject), (''To'', EmailConfig.To c),
                 (''From'', EmailConfig.From c)]"
  have to: "EmailConfig.To c \<noteq> ''''"
  proof
    assume "EmailConfig.To c = ''''"
    with assms show False by (simp add: EmailConfig_UnmarshalYAML_def)
  qed
  have d: "distinct (map (\<lambda>hv. ToTitle (fst hv)) ?hs)"
  proof (rule ccontr)
    assume nd: "\<not> distinct (map (\<lambda>hv. ToTitle (fst hv)) ?hs)"
    from Email_loop_fails[of unmarshal c, OF assms(1) to nd] assms(2) show False by auto
  qed
  have r: "Inr c' = returning (checkOverflow (EmailConfig.XXX c) ''email config'')
        (c\<lparr>EmailConfig.Headers := ?nh @ ?three\<rparr>)"
    using Email_loop_ok[of unmarshal c, OF assms(1) to d] assms(2) by simp
  have c': "c' = c\<lparr>EmailConfig.Headers := ?nh @ ?three\<rparr>"
  proof (cases "EmailConfig.XXX c = []")
    case True
    with r show ?thesis by (simp add: checkOverflow_def)
  next
    case False
    with r show ?thesis by (simp add: checkOverflow_def)
  qed
  have hd: "EmailConfig.Headers c' = ?nh @ ?three" by (simp add: c')
  have s: "map_of ?nh ''Subject'' = None"
    by (rule titled_lookup_None) (metis ToTitle_ne_Subject)
  have t: "map_of ?nh ''To'' = None"
    by (rule titled_lookup_None) (metis ToTitle_ne_To)
  have f: "map_of ?nh ''From'' = None"
    by (rule titled_lookup_None) (metis ToTitle_ne_From)
  have g1: "EmailConfig.To c' = EmailConfig.To c" by (simp add: c')
  have g2: "EmailConfig.From c' = EmailConfig.From c" by (simp add: c')
  have g3: "map_of (EmailConfig.Headers c') ''Subject'' = Some DefaultEmailSubject"
    unfolding hd using s by (simp add: map_add_def)
  have g4: "map_of (EmailConfig.Headers c') ''To'' = Some (EmailConfig.To c')"
    unfolding hd g1 using t by (simp add: map_add_def)
  have g5: "map_of (EmailConfig.Headers c') ''From'' = Some (EmailConfig.From c')"
    unfolding hd g2 using f by (simp add: map_add_def)
  have dn: "distinct (map fst ?nh)" using d by (simp add: comp_def)
  have g6: "\<forall>hv \<in> set ?hs. map_of (EmailConfig.Headers c') (ToTitle (fst hv)) = Some (snd hv)"
  proof
    fix hv assume "hv \<in> set ?hs"
    then have "(ToTitle (fst hv), snd hv) \<in> set ?nh" by simp
    with dn have "map_of ?nh (ToTitle (fst hv)) = Some (snd hv)" by (rule map_of_is_SomeI)
    then show "map_of (EmailConfig.Headers c') (ToTitle (fst hv)) = Some (snd hv)"
      unfolding hd by (simp add: map_add_def)
  qed
  have g7: "\<forall>kv \<in> set (EmailConfig.Headers c').
           kv \<in> {(''Subject'', DefaultEmailSubject), (''To'', EmailConfig.To c'),
                 (''From'', EmailConfig.From c')}
           \<or> (ToTitle (fst kv) = fst kv
               \<and> (\<exists>hv \<in> set ?hs. kv = (ToTitle (fst hv), snd hv)))"
  proof
    fix kv assume "kv \<in> set (EmailConfig.Headers c')"
    then have "kv \<in> set ?nh \<or> kv \<in> set ?three" unfolding hd by auto
    then show "kv \<in> {(''Subject'', DefaultEmailSubject), (''To'', EmailConfig.To c'),
                 (''From'', EmailConfig.From c')}
           \<or> (ToTitle (fst kv) = fst kv
               \<and> (\<exists>hv \<in> set ?hs. kv = (ToTitle (fst hv), snd hv)))"
    proof
      assume "kv \<in> set ?nh"
      then obtain hv where hv: "hv \<in> set ?hs" "kv = (ToTitle (fst hv), snd hv)" by auto
      then have "ToTitle (fst kv) = fst kv" by (simp add: ToTitle_idem)
      with hv show ?thesis by blast
    next
      assume "kv \<in> set ?three"
      then show ?thesis unfolding g1 g2 by simp
    qed
  qed
  from g1 g2 g3 g4 g5 g6 g7 show ?thesis by (intro conjI)
qed

theorem C10_email_headers_after_success_witness:
  "unmarshal_Email
      [(''to'', YString ''a@b.com''), (''from'', YString ''c@d.com''),
       (''headers'', YMap [(''Content-Type'', YString ''text/plain'')])]
      DefaultEmailConfig
     = Inr (DefaultEmailConfig\<lparr>EmailConfig.To := ''a@b.com'', EmailConfig.From := ''c@d.com'',
            EmailConfig.Headers := [(''Content-Type'', ''text/plain'')]\<rparr>)
   \<and> EmailConfig_UnmarshalYAML
       (unmarshal_Email
          [(''to'', YString ''a@b.com''), (''from'', YString ''c@d.com''),
           (''headers'', YMap [(''Content-Type'', YString ''text/plain'')])])
     = Inr (DefaultEmailConfig\<lparr>EmailConfig.To := ''a@b.com'', EmailConfig.From := ''c@d.com'',
            EmailConfig.Headers :=
              [(''CONTENT-TYPE'', ''text/plain''), (''Subject'', DefaultEmailSubject),
               (''To'', ''a@b.com''), (''From'', ''c@d.com'')]\<rparr>)
   \<and> map_of [(''CONTENT-TYPE'', ''text/plain''), (''Subject'', DefaultEmailSubject),
             (''To'', ''a@b.com''), (''From'', ''c@d.com'')] ''Subject''
     = Some DefaultEmailSubject
   \<and> map_of [(''CONTENT-TYPE'', ''text/plain''), (''Subject'', DefaultEmailSubject),
             (''To'', ''a@b.com''), (''From'', ''c@d.com'')] ''To'' = Some ''a@b.com''
   \<and> map_of [(''CONTENT-TYPE'', ''text/plain''), (''Subject'', DefaultEmailSubject),
             (''To'', ''a@b.com''), (''From'', ''c@d.com'')] ''From'' = Some ''c@d.com''
   \<and> map_of [(''CONTENT-TYPE'', ''text/plain''), (''Subject'', DefaultEmailSubject),
             (''To'', ''a@b.com''), (''From'', ''c@d.com'')] (ToTitle ''Content-Type'')
     = Some ''text/plain''"
proof -
  let ?b = "[(''to'', YString ''a@b.com''), (''from'', YString ''c@d.com''),
       (''headers'', YMap [(''Content-Type'', YString ''text/plain'')])]"
  let ?c = "DefaultEmailConfig\<lparr>EmailConfig.To := ''a@b.com'', EmailConfig.From := ''c@d.com'',
            EmailConfig.Headers := [(''Content-Type'', ''text/plain'')]\<rparr>"
  let ?hs = "[(''CONTENT-TYPE'', ''text/plain''), (''Subject'', DefaultEmailSubject),
               (''To'', ''a@b.com''), (''From'', ''c@d.com'')]"
  let ?c' = "DefaultEmailConfig\<lparr>EmailConfig.To := ''a@b.com'', EmailConfig.From := ''c@d.com'',
            EmailConfig.Headers := ?hs\<rparr>"
  have h1: "unmarshal_Email ?b DefaultEmailConfig = Inr ?c" by code_simp
  have h2: "EmailConfig_UnmarshalYAML (unmarshal_Email ?b) = Inr ?c'" by code_simp
  note T = C10_email_headers_after_success[of "unmarshal_Email ?b" ?c ?c', OF h1 h2]
  have hd: "EmailConfig.Headers ?c' = ?hs" by simp
  have to: "EmailConfig.To ?c' = ''a@b.com''" by simp
  have fr: "EmailConfig.From ?c' = ''c@d.com''" by simp
  have g3: "map_of ?hs ''Subject'' = Some DefaultEmailSubject"
    using T[THEN conjunct2, THEN conjunct2, THEN conjunct1] unfolding hd .
  have g4: "map_of ?hs ''To'' = Some ''a@b.com''"
    using T[THEN conjunct2, THEN conjunct2, THEN conjunct2, THEN conjunct1] unfolding hd to .
  have g5: "map_of ?hs ''From'' = Some ''c@d.com''"
    using T[THEN conjunct2, THEN conjunct2, THEN conjunct2, THEN conjunct2, THEN conjunct1]
    unfolding hd fr .
  have mem: "(''Content-Type'', ''text/plain'') \<in> set (EmailConfig.Headers ?c)" by simp
  have g6: "map_of ?hs (ToTitle ''Content-Type'') = Some ''text/plain''"
    using T[THEN conjunct2, THEN conjunct2, THEN conjunct2, THEN conjunct2, THEN conjunct2,
        THEN conjunct1, THEN bspec, OF mem]
    unfolding hd by simp
  from h1 h2 g3 g4 g5 g6 show ?thesis by (intro conjI)
qed

subsection \<open>Hipchat: the message format\<close>

text \<open>
  The decoder leaves the message format of the seed alone when the block has no
  \<open>message_format\<close> key.
\<close>

lemma map_sum_id_Inr: "map_sum id g x = Inr y \<longleftrightarrow> (\<exists>b. x = Inr b \<and> y = g b)"
  by (cases x) auto

lemma Hipchat_assign_keeps_MessageFormat:
  "Hipchat_assign k v c = Inr c' \<Longrightarrow> k \<noteq> ''message_format'' \<Longrightarrow>
   HipchatConfig.MessageFormat c' = HipchatConfig.MessageFormat c"
  by (auto simp: Hipchat_assign_def map_sum_id_Inr split: if_splits)

lemma decode_Hipchat_keeps_MessageFormat:
  "decode Hipchat_assign node c = Inr c' \<Longrightarrow> ''message_format'' \<notin> fst ` set node \<Longrightarrow>
   HipchatConfig.MessageFormat c' = HipchatConfig.MessageFormat c"
proof (induction node arbitrary: c)
  case Nil
  then show ?case by simp
next
  case (Cons kv node)
  obtain k v where kv: "kv = (k, v)" by (cases kv)
  from Cons.prems(2) kv have k: "k \<noteq> ''message_format''"
    and rest: "''message_format'' \<notin> fst ` set node" by auto
  from Cons.prems(1) kv obtain c1 where a: "Hipchat_assign k v c = Inr c1"
    and r: "decode Hipchat_assign node c1 = Inr c'"
    by (auto split: sum.splits)
  from Cons.IH[OF r rest] Hipchat_assign_keeps_MessageFormat[OF a k] show ?case by simp
qed

text \<open>
  C7 (as amended). A Hipchat decode that succeeds in the callback with a non-empty auth
  token and a message format other than html and text fails with the invalid-message-format
  error, which names the offending value and nothing else. The default message format is
  html; a block with no \<open>message_format\<close> key decodes to the message format html; and a
  decode with a non-empty auth token, the message format html and no residual keys
  succeeds.
\<close>

theorem C7_hipchat_message_format:
  "(unmarshal DefaultHipchatConfig = Inr c \<and> HipchatConfig.AuthToken c \<noteq> ''''
      \<and> HipchatConfig.MessageFormat c \<noteq> HipchatFormatHTML
      \<and> HipchatConfig.MessageFormat c \<noteq> HipchatFormatText \<longrightarrow>
    HipchatConfig_UnmarshalYAML unmarshal
      = Inl (Errorf ''invalid message format %q'' [HipchatConfig.MessageFormat c]))
   \<and> HipchatConfig.MessageFormat DefaultHipchatConfig = HipchatFormatHTML
   \<and> (''message_format'' \<notin> fst ` set node
      \<and> unmarshal_Hipchat node DefaultHipchatConfig = Inr d \<longrightarrow>
    HipchatConfig.MessageFormat d = HipchatFormatHTML)
   \<and> (unmarshal' DefaultHipchatConfig = Inr d' \<and> HipchatConfig.AuthToken d' \<noteq> ''''
      \<and> HipchatConfig.MessageFormat d' = HipchatFormatHTML \<and> HipchatConfig.XXX d' = [] \<longrightarrow>
    HipchatConfig_UnmarshalYAML unmarshal' = Inr d')"
proof (intro conjI impI)
  assume "unmarshal DefaultHipchatConfig = Inr c \<and> HipchatConfig.AuthToken c \<noteq> ''''
      \<and> HipchatConfig.MessageFormat c \<noteq> HipchatFormatHTML
      \<and> HipchatConfig.MessageFormat c \<noteq> HipchatFormatText"
  then show "HipchatConfig_UnmarshalYAML unmarshal
      = Inl (Errorf ''invalid message format %q'' [HipchatConfig.MessageFormat c])"
    by (simp add: HipchatConfig_UnmarshalYAML_def)
next
  show "HipchatConfig.MessageFormat DefaultHipchatConfig = HipchatFormatHTML"
    by (simp add: DefaultHipchatConfig_def)
next
  assume a: "''message_format'' \<notin> fst ` set node
      \<and> unmarshal_Hipchat node DefaultHipchatConfig = Inr d"
  then have "decode Hipchat_assign node (DefaultHipchatConfig\<lparr>HipchatConfig.XXX := []\<rparr>) = Inr d"
    by (simp add: unmarshal_Hipchat_def)
  from decode_Hipchat_keeps_MessageFormat[OF this] a
  show "HipchatConfig.MessageFormat d = HipchatFormatHTML"
    by (simp add: DefaultHipchatConfig_def)
next
  assume "unmarshal' DefaultHipchatConfig = Inr d' \<and> HipchatConfig.AuthToken d' \<noteq> ''''
      \<and> HipchatConfig.MessageFormat d' = HipchatFormatHTML \<and> HipchatConfig.XXX d' = []"
  then show "HipchatConfig_UnmarshalYAML unmarshal' = Inr d'"
    by (simp add: HipchatConfig_UnmarshalYAML_def checkOverflow_def)
qed

theorem C7_hipchat_message_format_witness:
  "unmarshal_Hipchat
      [(''auth_token'', YString ''t''), (''message_format'', YString ''markdown'')]
      DefaultHipchatConfig
     = Inr (DefaultHipchatConfig\<lparr>HipchatConfig.AuthToken := ''t'',
            HipchatConfig.MessageFormat := ''markdown''\<rparr>)
   \<and> HipchatConfig_UnmarshalYAML
       (unmarshal_Hipchat
          [(''auth_token'', YString ''t''), (''message_format'', YString ''markdown'')])
     = Inl (Errorf ''invalid message format %q'' [''markdown''])
   \<and> unmarshal_Hipchat [(''auth_token'', YString ''t'')] DefaultHipchatConfig
     = Inr (DefaultHipchatConfig\<lparr>HipchatConfig.AuthToken := ''t''\<rparr>)
   \<and> ''message_format'' \<notin> fst ` set [(''auth_token'', YString ''t'')]
   \<and> HipchatConfig.MessageFormat (DefaultHipchatConfig\<lparr>HipchatConfig.AuthToken := ''t''\<rparr>)
     = HipchatFormatHTML
   \<and> HipchatConfig_UnmarshalYAML (unmarshal_Hipchat [(''auth_token'', YString ''t'')])
     = Inr (DefaultHipchatConfig\<lparr>HipchatConfig.AuthToken := ''t''\<rparr>)"
proof -
  let ?bA = "[(''auth_token'', YString ''t''), (''message_format'', YString ''markdown'')]"
  let ?cA = "DefaultHipchatConfig\<lparr>HipchatConfig.AuthToken := ''t'',
            HipchatConfig.MessageFormat := ''markdown''\<rparr>"
  let ?bB = "[(''auth_token'', YString ''t'')]"
  let ?cB = "DefaultHipchatConfig\<lparr>HipchatConfig.AuthToken := ''t''\<rparr>"
  note T = C7_hipchat_message_format
    [where unmarshal = "unmarshal_Hipchat ?bA" and c = ?cA and node = ?bB and d = ?cB
       and unmarshal' = "unmarshal_Hipchat ?bB" and d' = ?cB]
  have hA: "unmarshal_Hipchat ?bA DefaultHipchatConfig = Inr ?cA" by code_simp
  have pA: "HipchatConfig.AuthToken ?cA \<noteq> ''''
      \<and> HipchatConfig.MessageFormat ?cA \<noteq> HipchatFormatHTML
      \<and> HipchatConfig.MessageFormat ?cA \<noteq> HipchatFormatText"
    by (simp add: HipchatFormatHTML_def HipchatFormatText_def)
  have wA: "HipchatConfig_UnmarshalYAML (unmarshal_Hipchat ?bA)
      = Inl (Errorf ''invalid message format %q'' [HipchatConfig.MessageFormat ?cA])"
    using T[THEN conjunct1, THEN mp, OF conjI, OF hA pA] .
  have wA': "HipchatConfig_UnmarshalYAML (unmarshal_Hipchat ?bA)
      = Inl (Errorf ''invalid message format %q'' [''markdown''])"
    using wA by simp
  have hB: "unmarshal_Hipchat ?bB DefaultHipchatConfig = Inr ?cB" by code_simp
  have nB: "''message_format'' \<notin> fst ` set ?bB" by simp
  have wB: "HipchatConfig.MessageFormat ?cB = HipchatFormatHTML"
    using T[THEN conjunct2, THEN conjunct2, THEN conjunct1, THEN mp, OF conjI, OF nB hB] .
  have pB: "HipchatConfig.AuthToken ?cB \<noteq> '''' \<and> HipchatConfig.MessageFormat ?cB = HipchatFormatHTML
      \<and> HipchatConfig.XXX ?cB = []"
    using wB by (simp add: DefaultHipchatConfig_def)
  have wC: "HipchatConfig_UnmarshalYAML (unmarshal_Hipchat ?bB) = Inr ?cB"
    using T[THEN conjunct2, THEN conjunct2, THEN conjunct2, THEN mp, OF conjI, OF hB pB] .
  from hA wA' hB nB wB wC show ?thesis by (intro conjI)
qed

text \<open>
  C7 as stated fails: for the block \<open>{auth_token: "t", message_format: "markdown"}\<close> the
  error names \<open>markdown\<close> but neither \<open>html\<close> nor \<open>text\<close>, the accepted set.
\<close>

theorem C7_invalid_format_error_omits_accepted_set:
  "HipchatConfig_UnmarshalYAML
     (unmarshal_Hipchat
        [(''auth_token'', YString ''t''), (''message_format'', YString ''markdown'')])
     = Inl (Errorf ''invalid message format %q'' [''markdown''])
   \<and> error_names (Errorf ''invalid message format %q'' [''markdown'']) ''markdown''
   \<and> \<not> error_names (Errorf ''invalid message format %q'' [''markdown'']) ''html''
   \<and> \<not> error_names (Errorf ''invalid message format %q'' [''markdown'']) ''text''"
  by code_simp

subsection \<open>The residual keys are checked last\<close>

text \<open>
  Each method, once the callback has succeeded with residual keys, fails; and it fails
  with the unrecognized-fields error exactly when its own checks pass.
\<close>

lemma Flowdock_residual:
  "unmarshal c0 = Inr c \<Longrightarrow> FlowdockConfig.XXX c \<noteq> [] \<Longrightarrow>
   isl (FlowdockConfig_UnmarshalYAML unmarshal c0)
   \<and> (fails_unrecognized (FlowdockConfig_UnmarshalYAML unmarshal c0)
         (map fst (FlowdockConfig.XXX c))
       \<longleftrightarrow> FlowdockConfig.APIToken c \<noteq> '''' \<and> FlowdockConfig.FromAddress c \<noteq> '''')"
  by (simp add: FlowdockConfig_UnmarshalYAML_def checkOverflow_def)

lemma Email_residual:
  assumes "unmarshal DefaultEmailConfig = Inr c" "EmailConfig.XXX c \<noteq> []"
  shows "isl (EmailConfig_UnmarshalYAML unmarshal)
   \<and> (fails_unrecognized (EmailConfig_UnmarshalYAML unmarshal) (map fst (EmailConfig.XXX c))
       \<longleftrightarrow> EmailConfig.To c \<noteq> ''''
           \<and> distinct (map (\<lambda>hv. ToTitle (fst hv)) (EmailConfig.Headers c)))"
proof (cases "EmailConfig.To c = ''''")
  case True
  with assms show ?thesis by (simp add: EmailConfig_UnmarshalYAML_def)
next
  case to: False
  show ?thesis
  proof (cases "distinct (map (\<lambda>hv. ToTitle (fst hv)) (EmailConfig.Headers c))")
    case True
    from Email_loop_ok[of unmarshal c, OF assms(1) to True] assms(2) to True
    show ?thesis by (simp add: checkOverflow_def)
  next
    case False
    from Email_loop_fails[of unmarshal c, OF assms(1) to False]
    obtain h where "EmailConfig_UnmarshalYAML unmarshal
         = Inl (Errorf ''duplicate header %q in email config'' [ToTitle h])" by auto
    with False show ?thesis by simp
  qed
qed

lemma Hipchat_residual:
  "unmarshal DefaultHipchatConfig = Inr c \<Longrightarrow> HipchatConfig.XXX c \<noteq> [] \<Longrightarrow>
   isl (HipchatConfig_UnmarshalYAML unmarshal)
   \<and> (fails_unrecognized (HipchatConfig_UnmarshalYAML unmarshal) (map fst (HipchatConfig.XXX c))
       \<longleftrightarrow> HipchatConfig.AuthToken c \<noteq> ''''
           \<and> (HipchatConfig.MessageFormat c = HipchatFormatHTML
              \<or> HipchatConfig.MessageFormat c = HipchatFormatText))"
  by (auto simp add: HipchatConfig_UnmarshalYAML_def checkOverflow_def)

lemma Pagerduty_residual:
  "unmarshal DefaultPagerdutyConfig s = (Inr c, s') \<Longrightarrow> PagerdutyConfig.XXX c \<noteq> [] \<Longrightarrow>
   isl (fst (PagerdutyConfig_UnmarshalYAML unmarshal s))
   \<and> (fails_unrecognized (fst (PagerdutyConfig_UnmarshalYAML unmarshal s))
         (map fst (PagerdutyConfig.XXX c))
       \<longleftrightarrow> PagerdutyConfig.ServiceKey c \<noteq> '''')"
  by (simp add: PagerdutyConfig_UnmarshalYAML_def checkOverflow_def)

lemma Pushover_residual:
  "unmarshal c0 = Inr c \<Longrightarrow> PushoverConfig.XXX c \<noteq> [] \<Longrightarrow>
   isl (PushoverConfig_UnmarshalYAML unmarshal c0)
   \<and> (fails_unrecognized (PushoverConfig_UnmarshalYAML unmarshal c0)
         (map fst (PushoverConfig.XXX c))
       \<longleftrightarrow> PushoverConfig.Token c \<noteq> '''' \<and> PushoverConfig.UserKey c \<noteq> '''')"
  by (simp add: PushoverConfig_UnmarshalYAML_def checkOverflow_def)

lemma Slack_residual:
  "unmarshal DefaultSlackConfig = Inr c \<Longrightarrow> SlackConfig.XXX c \<noteq> [] \<Longrightarrow>
   isl (SlackConfig_UnmarshalYAML unmarshal)
   \<and> (fails_unrecognized (SlackConfig_UnmarshalYAML unmarshal) (map fst (SlackConfig.XXX c))
       \<longleftrightarrow> SlackConfig.Channel c \<noteq> '''')"
  by (simp add: SlackConfig_UnmarshalYAML_def checkOverflow_def)

lemma Webhook_residual:
  "unmarshal c0 = Inr c \<Longrightarrow> WebhookConfig.XXX c \<noteq> [] \<Longrightarrow>
   isl (WebhookConfig_UnmarshalYAML unmarshal c0)
   \<and> (fails_unrecognized (WebhookConfig_UnmarshalYAML unmarshal c0)
         (map fst (WebhookConfig.XXX c))
       \<longleftrightarrow> WebhookConfig.URL c \<noteq> '''')"
  by (simp add: WebhookConfig_UnmarshalYAML_def checkOverflow_def)

lemma OpsGenie_residual:
  "unmarshal DefaultOpsGenieConfig = Inr c \<Longrightarrow> OpsGenieConfig.XXX c \<noteq> [] \<Longrightarrow>
   isl (OpsGenieConfig_UnmarshalYAML unmarshal)
   \<and> (fails_unrecognized (OpsGenieConfig_UnmarshalYAML unmarshal)
         (map fst (OpsGenieConfig.XXX c))
       \<longleftrightarrow> OpsGenieConfig.APIKey c \<noteq> '''')"
  by (simp add: OpsGenieConfig_UnmarshalYAML_def checkOverflow_def)

text \<open>
  C1 (as amended). For every variant and every decode whose callback succeeds and leaves a
  non-empty residual-keys map, validation fails. The residual-keys check runs last: the
  error is the unrecognized-fields error naming every residual key exactly when the
  variant's required-field checks, its domain check (Hipchat) and its header loop (Email)
  pass; otherwise the error of the first failing variant check is reported.
\<close>

theorem C1_residual_keys_checked_last:
  "(uF zF = Inr cF \<and> FlowdockConfig.XXX cF \<noteq> [] \<longrightarrow>
      isl (FlowdockConfig_UnmarshalYAML uF zF)
      \<and> (fails_unrecognized (FlowdockConfig_UnmarshalYAML uF zF) (map fst (FlowdockConfig.XXX cF))
          \<longleftrightarrow> FlowdockConfig.APIToken cF \<noteq> '''' \<and> FlowdockConfig.FromAddress cF \<noteq> ''''))
   \<and> (uE DefaultEmailConfig = Inr cE \<and> EmailConfig.XXX cE \<noteq> [] \<longrightarrow>
      isl (EmailConfig_UnmarshalYAML uE)
      \<and> (fails_unrecognized (EmailConfig_UnmarshalYAML uE) (map fst (EmailConfig.XXX cE))
          \<longleftrightarrow> EmailConfig.To cE \<noteq> ''''
              \<and> distinct (map (\<lambda>hv. ToTitle (fst hv)) (EmailConfig.Headers cE))))
   \<and> (uH DefaultHipchatConfig = Inr cH \<and> HipchatConfig.XXX cH \<noteq> [] \<longrightarrow>
      isl (HipchatConfig_UnmarshalYAML uH)
      \<and> (fails_unrecognized (HipchatConfig_UnmarshalYAML uH) (map fst (HipchatConfig.XXX cH))
          \<longleftrightarrow> HipchatConfig.AuthToken cH \<noteq> ''''
              \<and> (HipchatConfig.MessageFormat cH = HipchatFormatHTML
                 \<or> HipchatConfig.MessageFormat cH = HipchatFormatText)))
   \<and> (uP DefaultPagerdutyConfig sP = (Inr cP, sP') \<and> PagerdutyConfig.XXX cP \<noteq> [] \<longrightarrow>
      isl (fst (PagerdutyConfig_UnmarshalYAML uP sP))
      \<and> (fails_unrecognized (fst (PagerdutyConfig_UnmarshalYAML uP sP))
            (map fst (PagerdutyConfig.XXX cP))
          \<longleftrightarrow> PagerdutyConfig.ServiceKey cP \<noteq> ''''))
   \<and> (uV zV = Inr cV \<and> PushoverConfig.XXX cV \<noteq> [] \<longrightarrow>
      isl (PushoverConfig_UnmarshalYAML uV zV)
      \<and> (fails_unrecognized (PushoverConfig_UnmarshalYAML uV zV) (map fst (PushoverConfig.XXX cV))
          \<longleftrightarrow> PushoverConfig.Token cV \<noteq> '''' \<and> PushoverConfig.UserKey cV \<noteq> ''''))
   \<and> (uS DefaultSlackConfig = Inr cS \<and> SlackConfig.XXX cS \<noteq> [] \<longrightarrow>
      isl (SlackConfig_UnmarshalYAML uS)
      \<and> (fails_unrecognized (SlackConfig_UnmarshalYAML uS) (map fst (SlackConfig.XXX cS))
          \<longleftrightarrow> SlackConfig.Channel cS \<noteq> ''''))
   \<and> (uW zW = Inr cW \<and> WebhookConfig.XXX cW \<noteq> [] \<longrightarrow>
      isl (WebhookConfig_UnmarshalYAML uW zW)
      \<and> (fails_unrecognized (WebhookConfig_UnmarshalYAML uW zW) (map fst (WebhookConfig.XXX cW))
          \<longleftrightarrow> WebhookConfig.URL cW \<noteq> ''''))
   \<and> (uO DefaultOpsGenieConfig = Inr cO \<and> OpsGenieConfig.XXX cO \<noteq> [] \<longrightarrow>
      isl (OpsGenieConfig_UnmarshalYAML uO)
      \<and> (fails_unrecognized (OpsGenieConfig_UnmarshalYAML uO) (map fst (OpsGenieConfig.XXX cO))
          \<longleftrightarrow> OpsGenieConfig.APIKey cO \<noteq> ''''))"
  apply (intro conjI)
  subgoal by (rule impI, elim conjE, rule Flowdock_residual; assumption)
  subgoal by (rule impI, elim conjE, rule Email_residual; assumption)
  subgoal by (rule impI, elim conjE, rule Hipchat_residual; assumption)
  subgoal by (rule impI, elim conjE, rule Pagerduty_residual; assumption)
  subgoal by (rule impI, elim conjE, rule Pushover_residual; assumption)
  subgoal by (rule impI, elim conjE, rule Slack_residual; assumption)
  subgoal by (rule impI, elim conjE, rule Webhook_residual; assumption)
  subgoal by (rule impI, elim conjE, rule OpsGenie_residual; assumption)
  done

theorem C1_residual_keys_checked_last_witness:
  "(unmarshal_Flowdock
       [(''api_token'', YString ''t''), (''from_address'', YString ''a''), (''foo'', YInt 1)]
       zero_FlowdockConfig
      = Inr (zero_FlowdockConfig\<lparr>FlowdockConfig.APIToken := ''t'',
             FlowdockConfig.FromAddress := ''a'', FlowdockConfig.XXX := [(''foo'', YInt 1)]\<rparr>)
    \<and> fails_unrecognized
        (FlowdockConfig_UnmarshalYAML
           (unmarshal_Flowdock
              [(''api_token'', YString ''t''), (''from_address'', YString ''a''),
               (''foo'', YInt 1)])
           zero_FlowdockConfig) [''foo''])
   \<and> (unmarshal_Email [(''to'', YString ''a@b.com''), (''foo'', YInt 1)] DefaultEmailConfig
      = Inr (DefaultEmailConfig\<lparr>EmailConfig.To := ''a@b.com'',
             EmailConfig.XXX := [(''foo'', YInt 1)]\<rparr>)
    \<and> fails_unrecognized
        (EmailConfig_UnmarshalYAML
           (unmarshal_Email [(''to'', YString ''a@b.com''), (''foo'', YInt 1)])) [''foo''])
   \<and> (unmarshal_Hipchat [(''auth_token'', YString ''t''), (''foo'', YInt 1)] DefaultHipchatConfig
      = Inr (DefaultHipchatConfig\<lparr>HipchatConfig.AuthToken := ''t'',
             HipchatConfig.XXX := [(''foo'', YInt 1)]\<rparr>)
    \<and> fails_unrecognized
        (HipchatConfig_UnmarshalYAML
           (unmarshal_Hipchat [(''auth_token'', YString ''t''), (''foo'', YInt 1)])) [''foo''])
   \<and> (unmarshal_Pagerduty [(''service_key'', YString ''k''), (''foo'', YInt 1)]
        DefaultPagerdutyConfig init_store
      = (Inr (DefaultPagerdutyConfig\<lparr>PagerdutyConfig.ServiceKey := ''k'',
              PagerdutyConfig.XXX := [(''foo'', YInt 1)]\<rparr>), init_store)
    \<and> fails_unrecognized
        (fst (PagerdutyConfig_UnmarshalYAML
           (unmarshal_Pagerduty [(''service_key'', YString ''k''), (''foo'', YInt 1)])
           init_store)) [''foo''])
   \<and> (unmarshal_Pushover
       [(''token'', YString ''t''), (''user_key'', YString ''u''), (''foo'', YInt 1)]
       zero_PushoverConfig
      = Inr (zero_PushoverConfig\<lparr>PushoverConfig.Token := ''t'',
             PushoverConfig.UserKey := ''u'', PushoverConfig.XXX := [(''foo'', YInt 1)]\<rparr>)
    \<and> fails_unrecognized
        (PushoverConfig_UnmarshalYAML
           (unmarshal_Pushover
              [(''token'', YString ''t''), (''user_key'', YString ''u''), (''foo'', YInt 1)])
           zero_PushoverConfig) [''foo''])
   \<and> (unmarshal_Slack [(''channel'', YString ''c''), (''foo'', YInt 1)] DefaultSlackConfig
      = Inr (DefaultSlackConfig\<lparr>SlackConfig.Channel := ''c'',
             SlackConfig.XXX := [(''foo'', YInt 1)]\<rparr>)
    \<and> fails_unrecognized
        (SlackConfig_UnmarshalYAML
           (unmarshal_Slack [(''channel'', YString ''c''), (''foo'', YInt 1)])) [''foo''])
   \<and> (unmarshal_Webhook [(''url'', YString ''http://x''), (''foo'', YInt 1)] zero_WebhookConfig
      = Inr (zero_WebhookConfig\<lparr>WebhookConfig.URL := ''http://x'',
             WebhookConfig.XXX := [(''foo'', YInt 1)]\<rparr>)
    \<and> fails_unrecognized
        (WebhookConfig_UnmarshalYAML
           (unmarshal_Webhook [(''url'', YString ''http://x''), (''foo'', YInt 1)])
           zero_WebhookConfig) [''foo''])
   \<and> (unmarshal_OpsGenie [(''api_key'', YString ''k''), (''foo'', YInt 1)] DefaultOpsGenieConfig
      = Inr (DefaultOpsGenieConfig\<lparr>OpsGenieConfig.APIKey := ''k'',
             OpsGenieConfig.XXX := [(''foo'', YInt 1)]\<rparr>)
    \<and> fails_unrecognized
        (OpsGenieConfig_UnmarshalYAML
           (unmarshal_OpsGenie [(''api_key'', YString ''k''), (''foo'', YInt 1)])) [''foo''])"
proof -
  let ?bF = "[(''api_token'', YString ''t''), (''from_address'', YString ''a''), (''foo'', YInt 1)]"
  let ?cF = "zero_FlowdockConfig\<lparr>FlowdockConfig.APIToken := ''t'',
             FlowdockConfig.FromAddress := ''a'', FlowdockConfig.XXX := [(''foo'', YInt 1)]\<rparr>"
  let ?bE = "[(''to'', YString ''a@b.com''), (''foo'', YInt 1)]"
  let ?cE = "DefaultEmailConfig\<lparr>EmailConfig.To := ''a@b.com'',
             EmailConfig.XXX := [(''foo'', YInt 1)]\<rparr>"
  let ?bH = "[(''auth_token'', YString ''t''), (''foo'', YInt 1)]"
  let ?cH = "DefaultHipchatConfig\<lparr>HipchatConfig.AuthToken := ''t'',
             HipchatConfig.XXX := [(''foo'', YInt 1)]\<rparr>"
  let ?bP = "[(''service_key'', YString ''k''), (''foo'', YInt 1)]"
  let ?cP = "DefaultPagerdutyConfig\<lparr>PagerdutyConfig.ServiceKey := ''k'',
              PagerdutyConfig.XXX := [(''foo'', YInt 1)]\<rparr>"
  let ?bV = "[(''token'', YString ''t''), (''user_key'', YString ''u''), (''foo'', YInt 1)]"
  let ?cV = "zero_PushoverConfig\<lparr>PushoverConfig.Token := ''t'',
             PushoverConfig.UserKey := ''u'', PushoverConfig.XXX := [(''foo'', YInt 1)]\<rparr>"
  let ?bS = "[(''channel'', YString ''c''), (''foo'', YInt 1)]"
  let ?cS = "DefaultSlackConfig\<lparr>SlackConfig.Channel := ''c'',
             SlackConfig.XXX := [(''foo'', YInt 1)]\<rparr>"
  let ?bW = "[(''url'', YString ''http://x''), (''foo'', YInt 1)]"
  let ?cW = "zero_WebhookConfig\<lparr>WebhookConfig.URL := ''http://x'',
             WebhookConfig.XXX := [(''foo'', YInt 1)]\<rparr>"
  let ?bO = "[(''api_key'', YString ''k''), (''foo'', YInt 1)]"
  let ?cO = "DefaultOpsGenieConfig\<lparr>OpsGenieConfig.APIKey := ''k'',
             OpsGenieConfig.XXX := [(''foo'', YInt 1)]\<rparr>"
  note T = C1_residual_keys_checked_last
    [where uF = "unmarshal_Flowdock ?bF" and zF = zero_FlowdockConfig and cF = ?cF
       and uE = "unmarshal_Email ?bE" and cE = ?cE
       and uH = "unmarshal_Hipchat ?bH" and cH = ?cH
       and uP = "unmarshal_Pagerduty ?bP" and sP = init_store and cP = ?cP and sP' = init_store
       and uV = "unmarshal_Pushover ?bV" and zV = zero_PushoverConfig and cV = ?cV
       and uS = "unmarshal_Slack ?bS" and cS = ?cS
       and uW = "unmarshal_Webhook ?bW" and zW = zero_WebhookConfig and cW = ?cW
       and uO = "unmarshal_OpsGenie ?bO" and cO = ?cO]
  have hF: "unmarshal_Flowdock ?bF zero_FlowdockConfig = Inr ?cF" by code_simp
  have wF: "fails_unrecognized
      (FlowdockConfig_UnmarshalYAML (unmarshal_Flowdock ?bF) zero_FlowdockConfig) [''foo'']"
    using T[THEN conjunct1] hF by simp
  have hE: "unmarshal_Email ?bE DefaultEmailConfig = Inr ?cE" by code_simp
  have dE: "EmailConfig.Headers ?cE = []" by (simp add: DefaultEmailConfig_def)
  have wE: "fails_unrecognized (EmailConfig_UnmarshalYAML (unmarshal_Email ?bE)) [''foo'']"
    using T[THEN conjunct2, THEN conjunct1] hE dE by simp
  have hH: "unmarshal_Hipchat ?bH DefaultHipchatConfig = Inr ?cH" by code_simp
  have fH: "HipchatConfig.MessageFormat ?cH = HipchatFormatHTML"
    by (simp add: DefaultHipchatConfig_def)
  have wH: "fails_unrecognized (HipchatConfig_UnmarshalYAML (unmarshal_Hipchat ?bH)) [''foo'']"
    using T[THEN conjunct2, THEN conjunct2, THEN conjunct1] hH fH by simp
  have hP: "unmarshal_Pagerduty ?bP DefaultPagerdutyConfig init_store = (Inr ?cP, init_store)"
    by code_simp
  have wP: "fails_unrecognized
      (fst (PagerdutyConfig_UnmarshalYAML (unmarshal_Pagerduty ?bP) init_store)) [''foo'']"
    using T[THEN conjunct2, THEN conjunct2, THEN conjunct2, THEN conjunct1] hP by simp
  have hV: "unmarshal_Pushover ?bV zero_PushoverConfig = Inr ?cV" by code_simp
  have wV: "fails_unrecognized
      (PushoverConfig_UnmarshalYAML (unmarshal_Pushover ?bV) zero_PushoverConfig) [''foo'']"
    using T[THEN conjunct2, THEN conjunct2, THEN conjunct2, THEN conjunct2, THEN conjunct1] hV
    by simp
  have hS: "unmarshal_Slack ?bS DefaultSlackConfig = Inr ?cS" by code_simp
  have wS: "fails_unrecognized (SlackConfig_UnmarshalYAML (unmarshal_Slack ?bS)) [''foo'']"
    using T[THEN conjunct2, THEN conjunct2, THEN conjunct2, THEN conjunct2, THEN conjunct2,
        THEN conjunct1] hS
    by simp
  have hW: "unmarshal_Webhook ?bW zero_WebhookConfig = Inr ?cW" by code_simp
  have wW: "fails_unrecognized
      (WebhookConfig_UnmarshalYAML (unmarshal_Webhook ?bW) zero_WebhookConfig) [''foo'']"
    using T[THEN conjunct2, THEN conjunct2, THEN conjunct2, THEN conjunct2, THEN conjunct2,
        THEN conjunct2, THEN conjunct1] hW
    by simp
  have hO: "unmarshal_OpsGenie ?bO DefaultOpsGenieConfig = Inr ?cO" by code_simp
  have wO: "fails_unrecognized (OpsGenieConfig_UnmarshalYAML (unmarshal_OpsGenie ?bO)) [''foo'']"
    using T[THEN conjunct2, THEN conjunct2, THEN conjunct2, THEN conjunct2, THEN conjunct2,
        THEN conjunct2, THEN conjunct2] hO
    by simp
  from hF wF hE wE hH wH hP wP hV wV hS wS hW wW hO wO show ?thesis by (intro conjI)
qed

text \<open>
  C1 as stated fails: the Webhook block \<open>{url: "", foo: 1}\<close> leaves the residual key
  \<open>foo\<close>, and the reported error is the missing URL, not the unrecognized fields.
\<close>

theorem C1_missing_url_reported_before_residual_keys:
  "unmarshal_Webhook [(''url'', YString ''''), (''foo'', YInt 1)] zero_WebhookConfig
     = Inr \<lparr>WebhookConfig.URL = '''', WebhookConfig.XXX = [(''foo'', YInt 1)]\<rparr>
   \<and> WebhookConfig_UnmarshalYAML
       (unmarshal_Webhook [(''url'', YString ''''), (''foo'', YInt 1)]) zero_WebhookConfig
     = Inl (Errorf ''missing URL in webhook config'' [])
   \<and> \<not> fails_unrecognized
         (WebhookConfig_UnmarshalYAML
            (unmarshal_Webhook [(''url'', YString ''''), (''foo'', YInt 1)]) zero_WebhookConfig)
         [''foo'']"
  by code_simp

end
